theory Spec2Isabelle
  imports Complex_Main "HOL-Library.Sublist"
begin

section \<open>JavaScript values used by executor.mjs\<close>

text \<open>
  A JavaScript number is NaN, one of the two infinities, or a finite value. Finite
  values are kept as rationals (every finite double is one); the rounding of the
  runtime's arithmetic is not modelled, and no definition below does arithmetic on a
  \<open>jsnum\<close> other than comparing it.
\<close>

datatype jsnum = NaN | PosInf | NegInf | Finite rat

fun isFinite :: "jsnum \<Rightarrow> bool" where
  "isFinite (Finite r) = True"
| "isFinite x = False"

text \<open>The relational operator \<open>a <= b\<close>: false as soon as one side is NaN.\<close>

fun js_le :: "jsnum \<Rightarrow> jsnum \<Rightarrow> bool" where
  "js_le NaN b = False"
| "js_le a NaN = False"
| "js_le NegInf b = True"
| "js_le a PosInf = True"
| "js_le (Finite a) (Finite b) = (a \<le> b)"
| "js_le a b = False"

text \<open>\<open>a >= b\<close> is \<open>b <= a\<close>.\<close>

definition js_ge :: "jsnum \<Rightarrow> jsnum \<Rightarrow> bool" where
  "js_ge a b = js_le b a"

text \<open>
  A thrown value: an Error object with its \<open>name\<close> and \<open>message\<close>.
  \<open>new Error(m)\<close> has the name \<open>Error\<close>; the libraries throw subclasses with
  other names.
\<close>

datatype js_error = JsError (err_name: string) (err_message: string)

definition new_Error :: "string \<Rightarrow> js_error" where
  "new_Error m = JsError ''Error'' m"

text \<open>
  \<open>`${e.message || e}`\<close>: the message when it is not empty, otherwise the error
  converted to a string, which for an empty message is its name.
\<close>

definition err_text :: "js_error \<Rightarrow> string" where
  "err_text e = (if err_message e \<noteq> [] then err_message e else err_name e)"

text \<open>Parsed JSON. In an object a later duplicate key replaces an earlier one.\<close>

datatype json =
    JNull
  | JBool bool
  | JNum jsnum
  | JStr string
  | JArr "json list"
  | JObj "(string \<times> json) list"

text \<open>
  Property reads with optional chaining; \<open>None\<close> is \<open>undefined\<close>.
  \<open>x?.k\<close> for a string key that no array, string, number or boolean has.
\<close>

fun opt_prop :: "json option \<Rightarrow> string \<Rightarrow> json option" where
  "opt_prop (Some (JObj kvs)) k = map_of (rev kvs) k"
| "opt_prop x k = None"

text \<open>\<open>x?.[0]\<close>.\<close>

fun opt_index0 :: "json option \<Rightarrow> json option" where
  "opt_index0 (Some (JArr (x # xs))) = Some x"
| "opt_index0 (Some (JStr (c # cs))) = Some (JStr [c])"
| "opt_index0 (Some (JObj kvs)) = map_of (rev kvs) ''0''"
| "opt_index0 x = None"

text \<open>\<open>!x\<close> on a JSON value or \<open>undefined\<close>.\<close>

fun falsy_json :: "json option \<Rightarrow> bool" where
  "falsy_json None = True"
| "falsy_json (Some JNull) = True"
| "falsy_json (Some (JBool b)) = (\<not> b)"
| "falsy_json (Some (JNum NaN)) = True"
| "falsy_json (Some (JNum (Finite r))) = (r = 0)"
| "falsy_json (Some (JNum n)) = False"
| "falsy_json (Some (JStr s)) = (s = [])"
| "falsy_json (Some j) = False"

text \<open>
  \<open>const { k } = x\<close>: a TypeError when \<open>x\<close> is null, otherwise the property or
  \<open>undefined\<close>.
\<close>

definition destructure :: "json \<Rightarrow> string \<Rightarrow> js_error + json option" where
  "destructure x k =
     (if x = JNull
      then Inl (JsError ''TypeError'' ''Cannot destructure property of null'')
      else Inr (opt_prop (Some x) k))"

section \<open>Configuration\<close>

text \<open>\<open>process.env\<close>, lines 12-23: a variable is a string or unset.\<close>

record env =
  RPC_URL :: "string option"
  PRIVATE_KEY_B58 :: "string option"
  TOKEN_MINT :: "string option"
  QUOTE_MINT :: "string option"
  SIDE :: "string option"
  AMOUNT_IN_BASE_UNITS :: "string option"
  MAX_SLIPPAGE_BPS :: "string option"
  INTERVAL_SECONDS :: "string option"
  DAILY_BUDGET_TRADES :: "string option"
  DISCORD_WEBHOOK_URL :: "string option"

text \<open>\<open>!X\<close> for an environment variable: unset or the empty string.\<close>

definition unset_or_empty :: "string option \<Rightarrow> bool" where
  "unset_or_empty x = (case x of None \<Rightarrow> True | Some s \<Rightarrow> s = [])"

datatype pubkey = PublicKey (toBase58: string)

datatype keypair = Keypair (publicKey: pubkey) (secretKey: string)

datatype connection = Connection (rpc_endpoint: string) (commitment: string)

type_synonym tx = string

text \<open>
  The library functions the script calls and that touch no network: the runtime's
  conversion of a string to a number (what \<open>Number\<close> does on a string), the
  constructors of web3.js and bs58, and the transaction codec. They are parameters of
  the model, each returning its value or the error it throws.
\<close>

record runtime =
  StringToNumber :: "string \<Rightarrow> jsnum"
  newPublicKey :: "string \<Rightarrow> js_error + pubkey"
  keypairFromSecretKey :: "string \<Rightarrow> js_error + keypair"
  newConnection :: "string \<Rightarrow> js_error + connection"
  deserialize :: "json option \<Rightarrow> js_error + tx"
  sign_tx :: "tx \<Rightarrow> keypair \<Rightarrow> js_error + tx"

text \<open>\<open>Number(X)\<close> for an environment variable: \<open>Number(undefined)\<close> is NaN.\<close>

definition Number_env :: "runtime \<Rightarrow> string option \<Rightarrow> jsnum" where
  "Number_env rt x = (case x of None \<Rightarrow> NaN | Some s \<Rightarrow> StringToNumber rt s)"

text \<open>\<open>Number(X ?? d)\<close> with a numeric default \<open>d\<close>.\<close>

definition Number_or :: "runtime \<Rightarrow> string option \<Rightarrow> rat \<Rightarrow> jsnum" where
  "Number_or rt x d = (case x of None \<Rightarrow> Finite d | Some s \<Rightarrow> StringToNumber rt s)"

section \<open>Effects\<close>

text \<open>
  A \<open>Date\<close> object, by the UTC calendar fields the script can read from it;
  \<open>getUTCDate\<close> is the day of the month.
\<close>

record date =
  utc_year :: int
  utc_month :: nat
  utc_date :: nat

definition getUTCDate :: "date \<Rightarrow> nat" where
  "getUTCDate d = utc_date d"

text \<open>The clock does not run backwards between two readings.\<close>

definition date_le :: "date \<Rightarrow> date \<Rightarrow> bool" where
  "date_le a b =
     (utc_year a < utc_year b \<or>
      (utc_year a = utc_year b \<and>
       (utc_month a < utc_month b \<or>
        (utc_month a = utc_month b \<and> utc_date a \<le> utc_date b))))"

record http_response =
  ok :: bool
  statusText :: string
  json_body :: "js_error + json"

record quote_request =
  inputMint :: string
  outputMint :: string
  amount_param :: jsnum
  slippageBps :: string
  onlyDirectRoutes :: string

record swap_request =
  quoteResponse :: json
  userPublicKey :: string
  wrapAndUnwrapSol :: bool
  dynamicComputeUnitLimit :: bool
  prioritizationFeeLamports :: string

text \<open>
  A template literal, kept in parts where the runtime converts a value to text:
  \<open>UpperCase s\<close> is \<open>s.toUpperCase()\<close>, \<open>NumText n\<close> is the number \<open>n\<close>
  converted to a string, \<open>IsoTime d\<close> is \<open>d.toISOString()\<close>.
\<close>

datatype part = Lit string | UpperCase string | NumText jsnum | IsoTime date

type_synonym message = "part list"

text \<open>
  What the script does to the outside, in the order it does it. \<open>SleepSeconds x\<close>
  is \<open>sleep(x * 1000)\<close>; \<open>WalletLine k b\<close> is the start-up line with the wallet
  \<open>k\<close> and its balance \<open>b\<close> in lamports.
\<close>

datatype event =
    ConsoleErrorText string
  | ConsoleError js_error
  | ConsoleLog message
  | WalletLine string jsnum
  | ProcessExit nat
  | GetBalance pubkey
  | FetchQuote quote_request
  | FetchSwap swap_request
  | SignTx tx
  | SendTransaction tx
  | ConfirmTransaction string
  | WebhookPost string message
  | SleepSeconds jsnum

text \<open>
  What the outside answers during one pass of the loop: the clock at line 100 and at
  line 114, and for each network call its result or the error it throws.
\<close>

record world =
  now :: date
  now_log :: date
  fetch_quote :: "quote_request \<Rightarrow> js_error + http_response"
  fetch_swap :: "swap_request \<Rightarrow> js_error + http_response"
  sendTransaction :: "tx \<Rightarrow> js_error + string"
  confirmTransaction :: "string \<Rightarrow> js_error + unit"
  fetch_webhook :: "string \<Rightarrow> message \<Rightarrow> js_error + unit"

text \<open>
  An async function's run: the events it caused, and its value or the error it
  rejects with.
\<close>

type_synonym 'a comp = "event list \<times> (js_error + 'a)"

text \<open>
  \<open>ret\<close> returns and \<open>throw\<close> throws without an event; \<open>call ev r\<close>
  is an awaited call to the outside, seen as the event \<open>ev\<close>, that answers
  \<open>r\<close>; \<open>pure_step r\<close> is a step that may throw but touches nothing outside;
  \<open>and_then\<close> runs the rest only when the first part did not throw;
  \<open>swallow\<close> is \<open>try { ... } catch {}\<close>.
\<close>

definition ret :: "'a \<Rightarrow> 'a comp" where
  "ret a = ([], Inr a)"

definition throw :: "js_error \<Rightarrow> 'a comp" where
  "throw e = ([], Inl e)"

definition call :: "event \<Rightarrow> js_error + 'a \<Rightarrow> 'a comp" where
  "call ev r = ([ev], r)"

definition pure_step :: "js_error + 'a \<Rightarrow> 'a comp" where
  "pure_step r = ([], r)"

definition and_then :: "'a comp \<Rightarrow> ('a \<Rightarrow> 'b comp) \<Rightarrow> 'b comp" where
  "and_then m f =
     (case snd m of
        Inl e \<Rightarrow> (fst m, Inl e)
      | Inr a \<Rightarrow> (fst m @ fst (f a), snd (f a)))"

definition swallow :: "'a comp \<Rightarrow> unit comp" where
  "swallow m = (fst m, Inr ())"

section \<open>Module state\<close>

text \<open>
  The module-level bindings of lines 12-35 and 94-95. Only \<open>tradesToday\<close> and
  \<open>lastDay\<close> are declared with \<open>let\<close>. The counter is a natural number: a
  double counts exactly up to \<open>2 ^ 53\<close>.
\<close>

record program =
  penv :: env
  conn :: connection
  wallet :: keypair
  TOKEN :: pubkey
  QUOTE :: pubkey
  INPUT :: pubkey
  OUTPUT :: pubkey
  tradesToday :: nat
  lastDay :: nat

record swap_result =
  sig :: string
  inMint :: string
  outMint :: string
  amount :: jsnum

section \<open>Messages\<close>

text \<open>
  The template literals of lines 105, 110-112, 118, 127 and 114, in this order;
  characters outside ASCII are written as their UTF-8 bytes.
\<close>

definition limit_message :: message where
  "limit_message =
     [Lit ([CHR 0xE2, CHR 0x8F, CHR 0xB8] @
           '' Daily trade limit reached. Waiting for next UTC day.'')]"

definition executed_message :: "string \<Rightarrow> swap_result \<Rightarrow> message" where
  "executed_message side r =
     [Lit ([CHR 0xE2, CHR 0x9C, CHR 0x85] @ '' Executed ''), UpperCase side,
      Lit '' | inputMint='', Lit (inMint r),
      Lit ('' '' @ [CHR 0xE2, CHR 0x86, CHR 0x92] @ '' outputMint=''), Lit (outMint r),
      Lit ([CHR 0x0A, CHR 0xE2, CHR 0x80, CHR 0xA2] @ '' amount(base units)=''),
      NumText (amount r),
      Lit ([CHR 0x0A, CHR 0xE2, CHR 0x80, CHR 0xA2] @ '' tx: https://solscan.io/tx/''),
      Lit (sig r)]"

definition error_message :: "js_error \<Rightarrow> message" where
  "error_message e =
     [Lit ([CHR 0xE2, CHR 0x9A, CHR 0xA0, CHR 0xEF, CHR 0xB8, CHR 0x8F] @
           '' Swap error: ''),
      Lit (err_text e)]"

definition online_message :: "string \<Rightarrow> string \<Rightarrow> message" where
  "online_message side k =
     [Lit ([CHR 0xF0, CHR 0x9F, CHR 0x94, CHR 0x81] @ '' Executor online for ''),
      Lit side, Lit ('' | wallet '' @ [CHR 0x60]), Lit k, Lit [CHR 0x60]]"

definition swap_ok_line :: "date \<Rightarrow> string \<Rightarrow> message" where
  "swap_ok_line d s = [Lit ''['', IsoTime d, Lit ''] Swap ok: '', Lit s]"

section \<open>discord, lines 39-48\<close>

definition discord ::
  "env \<Rightarrow> (string \<Rightarrow> message \<Rightarrow> js_error + unit) \<Rightarrow> message \<Rightarrow> unit comp" where
  "discord e post msg =
     (if unset_or_empty (DISCORD_WEBHOOK_URL e) then ret ()
      else case DISCORD_WEBHOOK_URL e of
             None \<Rightarrow> ret ()
           | Some url \<Rightarrow> swallow (call (WebhookPost url msg) (post url msg)))"

section \<open>swapOnce, lines 50-92\<close>

definition swapOnce :: "runtime \<Rightarrow> program \<Rightarrow> world \<Rightarrow> swap_result comp" where
  "swapOnce rt p w =
     (let amt = Number_env rt (AMOUNT_IN_BASE_UNITS (penv p)) in
      if \<not> isFinite amt \<or> js_le amt (Finite 0)
      then throw (new_Error ''AMOUNT_IN_BASE_UNITS must be a positive integer (base units).'')
      else
        let q = \<lparr>inputMint = toBase58 (INPUT p),
                 outputMint = toBase58 (OUTPUT p),
                 amount_param = amt,
                 slippageBps = (case MAX_SLIPPAGE_BPS (penv p) of None \<Rightarrow> ''50'' | Some s \<Rightarrow> s),
                 onlyDirectRoutes = ''false''\<rparr> in
        and_then (call (FetchQuote q) (fetch_quote w q)) (\<lambda>quoteRes.
        if \<not> ok quoteRes then throw (new_Error (''Quote error: '' @ statusText quoteRes))
        else
        and_then (pure_step (json_body quoteRes)) (\<lambda>quoteJson.
        case opt_index0 (opt_prop (Some quoteJson) ''data'') of
          None \<Rightarrow> throw (new_Error ''No route found (insufficient liquidity?)'')
        | Some route \<Rightarrow>
        if falsy_json (Some route)
        then throw (new_Error ''No route found (insufficient liquidity?)'')
        else
        let b = \<lparr>quoteResponse = route,
                 userPublicKey = toBase58 (publicKey (wallet p)),
                 wrapAndUnwrapSol = True,
                 dynamicComputeUnitLimit = True,
                 prioritizationFeeLamports = ''auto''\<rparr> in
        and_then (call (FetchSwap b) (fetch_swap w b)) (\<lambda>swapRes.
        if \<not> ok swapRes then throw (new_Error (''Swap build error: '' @ statusText swapRes))
        else
        and_then (pure_step (json_body swapRes)) (\<lambda>swapJson.
        and_then (pure_step (destructure swapJson ''swapTransaction'')) (\<lambda>swapTransaction.
        and_then (pure_step (deserialize rt swapTransaction)) (\<lambda>t.
        and_then (call (SignTx t) (sign_tx rt t (wallet p))) (\<lambda>signed.
        and_then (call (SendTransaction signed) (sendTransaction w signed)) (\<lambda>s.
        and_then (call (ConfirmTransaction s) (confirmTransaction w s)) (\<lambda>u.
        ret \<lparr>sig = s,
             inMint = toBase58 (INPUT p),
             outMint = toBase58 (OUTPUT p),
             amount = amt\<rparr>))))))))))"

section \<open>loop, lines 97-122\<close>

text \<open>Line 102.\<close>

definition day_reset :: "program \<Rightarrow> date \<Rightarrow> program" where
  "day_reset p d =
     (if getUTCDate d \<noteq> lastDay p
      then p\<lparr>lastDay := getUTCDate d, tradesToday := 0\<rparr>
      else p)"

text \<open>The condition of line 104.\<close>

definition cap :: "runtime \<Rightarrow> program \<Rightarrow> jsnum" where
  "cap rt p = Number_or rt (DAILY_BUDGET_TRADES (penv p)) 100"

definition cap_reached :: "runtime \<Rightarrow> program \<Rightarrow> bool" where
  "cap_reached rt p = js_ge (Finite (of_nat (tradesToday p))) (cap rt p)"

text \<open>
  The \<open>try\<close> block, lines 100-115. The assignments to the two counters stay when a
  later statement throws, so the state is returned beside the run.
  \<open>SIDE.toUpperCase()\<close> is a TypeError when \<open>SIDE\<close> is unset (line 25 lets no
  such program reach the loop).
\<close>

definition loop_body :: "runtime \<Rightarrow> program \<Rightarrow> world \<Rightarrow> program \<times> unit comp" where
  "loop_body rt p w =
     (let p1 = day_reset p (now w) in
      if cap_reached rt p1
      then (p1, discord (penv p1) (fetch_webhook w) limit_message)
      else
        case swapOnce rt p1 w of
          (evs, Inl e) \<Rightarrow> (p1, (evs, Inl e))
        | (evs, Inr r) \<Rightarrow>
            (let p2 = p1\<lparr>tradesToday := tradesToday p1 + 1\<rparr> in
             (p2,
              and_then (evs, Inr ()) (\<lambda>u.
              case SIDE (penv p2) of
                None \<Rightarrow> throw (JsError ''TypeError'' ''Cannot read properties of undefined'')
              | Some side \<Rightarrow>
              and_then (discord (penv p2) (fetch_webhook w) (executed_message side r)) (\<lambda>u.
              call (ConsoleLog (swap_ok_line (now_log w) (sig r))) (Inr ()))))))"

definition interval :: "runtime \<Rightarrow> program \<Rightarrow> jsnum" where
  "interval rt p = Number_or rt (INTERVAL_SECONDS (penv p)) 1200"

text \<open>
  One pass of the \<open>while\<close> body, lines 99-120: the \<open>try\<close> block, the \<open>catch\<close>
  block when it threw, then the sleep. An \<open>Inl\<close> result is an error that leaves the
  loop.
\<close>

definition loop_iter :: "runtime \<Rightarrow> program \<Rightarrow> world \<Rightarrow> program \<times> unit comp" where
  "loop_iter rt p w =
     (case loop_body rt p w of
        (p', (evs, r)) \<Rightarrow>
          (p',
           and_then
             (case r of
                Inr u \<Rightarrow> (evs, Inr ())
              | Inl e \<Rightarrow>
                  and_then (evs, Inr ()) (\<lambda>u.
                  and_then (call (ConsoleError e) (Inr ())) (\<lambda>u.
                  discord (penv p') (fetch_webhook w) (error_message e))))
             (\<lambda>u. call (SleepSeconds (interval rt p')) (Inr ()))))"

text \<open>
  The \<open>while (true)\<close> loop on the answers of the outside to its first passes. It
  never returns; \<open>Inr ()\<close> says that every pass was made and the loop goes on,
  \<open>Inl e\<close> that the error \<open>e\<close> ended it.
\<close>

fun loop_run :: "runtime \<Rightarrow> program \<Rightarrow> world list \<Rightarrow> program \<times> unit comp" where
  "loop_run rt p [] = (p, ret ())"
| "loop_run rt p (w # ws) =
     (case loop_iter rt p w of
        (p', (evs, Inl e)) \<Rightarrow> (p', (evs, Inl e))
      | (p', (evs, Inr u)) \<Rightarrow>
          (case loop_run rt p' ws of
             (p'', (evs', r)) \<Rightarrow> (p'', (evs @ evs', r))))"

section \<open>Start-up, lines 25-35, 94-95 and 124-129\<close>

text \<open>
  The bindings of lines 30-35 and 94-95, made once the check of line 25 has passed;
  \<open>d\<close> is the clock at line 95. A constructor that throws ends the process. The
  last case, a variable of line 25 unset, is the one that check excludes.
\<close>

definition init_module :: "runtime \<Rightarrow> env \<Rightarrow> date \<Rightarrow> js_error + program" where
  "init_module rt e d =
     (case (RPC_URL e, PRIVATE_KEY_B58 e, TOKEN_MINT e, QUOTE_MINT e) of
        (Some u, Some k, Some t, Some q) \<Rightarrow>
          (case newConnection rt u of Inl x \<Rightarrow> Inl x | Inr c \<Rightarrow>
          (case keypairFromSecretKey rt k of Inl x \<Rightarrow> Inl x | Inr wl \<Rightarrow>
          (case newPublicKey rt t of Inl x \<Rightarrow> Inl x | Inr tk \<Rightarrow>
          (case newPublicKey rt q of Inl x \<Rightarrow> Inl x | Inr qk \<Rightarrow>
           Inr \<lparr>penv = e, conn = c, wallet = wl, TOKEN = tk, QUOTE = qk,
                INPUT = (if SIDE e = Some ''sell'' then tk else qk),
                OUTPUT = (if SIDE e = Some ''sell'' then qk else tk),
                tradesToday = 0, lastDay = getUTCDate d\<rparr>))))
      | other \<Rightarrow> Inl (JsError ''TypeError'' ''undefined''))"

text \<open>What the outside answers before the loop starts.\<close>

record startup_world =
  start_now :: date
  getBalance :: "pubkey \<Rightarrow> js_error + jsnum"
  online_webhook :: "string \<Rightarrow> message \<Rightarrow> js_error + unit"

text \<open>
  How a run stands after the passes it was given answers for: the process has exited
  with a code, an uncaught error has ended it, or the loop is still running.
\<close>

datatype final = Exited nat | Crashed js_error | Running program

definition main ::
  "runtime \<Rightarrow> env \<Rightarrow> startup_world \<Rightarrow> world list \<Rightarrow> event list \<times> final" where
  "main rt e sw ws =
     (if unset_or_empty (RPC_URL e) \<or> unset_or_empty (PRIVATE_KEY_B58 e) \<or>
         unset_or_empty (TOKEN_MINT e) \<or> unset_or_empty (QUOTE_MINT e) \<or>
         unset_or_empty (SIDE e)
      then ([ConsoleErrorText ''Missing required env vars.'', ProcessExit 1], Exited 1)
      else
        case init_module rt e (start_now sw) of
          Inl x \<Rightarrow> ([], Crashed x)
        | Inr p \<Rightarrow>
            (case getBalance sw (publicKey (wallet p)) of
               Inl x \<Rightarrow> ([GetBalance (publicKey (wallet p))], Crashed x)
             | Inr bal \<Rightarrow>
                 (let k = toBase58 (publicKey (wallet p));
                      side = (case SIDE e of None \<Rightarrow> ''undefined'' | Some s \<Rightarrow> s);
                      evs0 = [GetBalance (publicKey (wallet p)), WalletLine k bal] @
                             fst (discord e (online_webhook sw) (online_message side k))
                  in case loop_run rt p ws of
                       (p', (evs, Inl x)) \<Rightarrow> (evs0 @ evs, Crashed x)
                     | (p', (evs, Inr u)) \<Rightarrow> (evs0 @ evs, Running p'))))"

section \<open>Notions the properties are stated with\<close>

text \<open>The five steps of the call chain of \<open>swapOnce\<close>, and the step an event belongs to.\<close>

datatype step = QuoteStep | BuildStep | SignStep | SubmitStep | ConfirmStep

fun step_of :: "event \<Rightarrow> step option" where
  "step_of (FetchQuote q) = Some QuoteStep"
| "step_of (FetchSwap b) = Some BuildStep"
| "step_of (SignTx t) = Some SignStep"
| "step_of (SendTransaction t) = Some SubmitStep"
| "step_of (ConfirmTransaction s) = Some ConfirmStep"
| "step_of ev = None"

definition chain :: "step list" where
  "chain = [QuoteStep, BuildStep, SignStep, SubmitStep, ConfirmStep]"

text \<open>The steps among the events of a run, in their order.\<close>

fun steps :: "event list \<Rightarrow> step list" where
  "steps [] = []"
| "steps (ev # evs) = (case step_of ev of None \<Rightarrow> steps evs | Some s \<Rightarrow> s # steps evs)"

text \<open>
  A step succeeded: its call returned, and what \<open>swapOnce\<close> checks or decodes of the
  answer before the next call went through.
\<close>

fun step_succeeded :: "runtime \<Rightarrow> program \<Rightarrow> world \<Rightarrow> event \<Rightarrow> bool" where
  "step_succeeded rt p w (FetchQuote q) =
     (case fetch_quote w q of
        Inl e \<Rightarrow> False
      | Inr res \<Rightarrow>
          ok res \<and>
          (case json_body res of
             Inl e \<Rightarrow> False
           | Inr j \<Rightarrow> \<not> falsy_json (opt_index0 (opt_prop (Some j) ''data''))))"
| "step_succeeded rt p w (FetchSwap b) =
     (case fetch_swap w b of
        Inl e \<Rightarrow> False
      | Inr res \<Rightarrow>
          ok res \<and>
          (case json_body res of
             Inl e \<Rightarrow> False
           | Inr j \<Rightarrow>
               (case destructure j ''swapTransaction'' of
                  Inl e \<Rightarrow> False
                | Inr t \<Rightarrow> (case deserialize rt t of Inl e \<Rightarrow> False | Inr x \<Rightarrow> True))))"
| "step_succeeded rt p w (SignTx t) =
     (case sign_tx rt t (wallet p) of Inl e \<Rightarrow> False | Inr x \<Rightarrow> True)"
| "step_succeeded rt p w (SendTransaction t) =
     (case sendTransaction w t of Inl e \<Rightarrow> False | Inr x \<Rightarrow> True)"
| "step_succeeded rt p w (ConfirmTransaction s) =
     (case confirmTransaction w s of Inl e \<Rightarrow> False | Inr x \<Rightarrow> True)"
| "step_succeeded rt p w ev = True"

text \<open>The quote requests among the events of a run.\<close>

fun quotes :: "event list \<Rightarrow> quote_request list" where
  "quotes [] = []"
| "quotes (FetchQuote q # evs) = q # quotes evs"
| "quotes (ev # evs) = quotes evs"

text \<open>A pass of the loop calls \<open>swapOnce\<close>; the call returns.\<close>

definition swap_attempted :: "runtime \<Rightarrow> program \<Rightarrow> world \<Rightarrow> bool" where
  "swap_attempted rt p w = (\<not> cap_reached rt (day_reset p (now w)))"

definition swap_succeeded :: "runtime \<Rightarrow> program \<Rightarrow> world \<Rightarrow> bool" where
  "swap_succeeded rt p w =
     (swap_attempted rt p w \<and>
      (case snd (swapOnce rt (day_reset p (now w)) w) of Inl e \<Rightarrow> False | Inr r \<Rightarrow> True))"

text \<open>
  The successful swaps of the day \<open>D\<close> in the passes of a run: a swap belongs to
  the day its pass read from the clock at line 100.
\<close>

fun swaps_on :: "runtime \<Rightarrow> date \<Rightarrow> program \<Rightarrow> world list \<Rightarrow> nat" where
  "swaps_on rt D p [] = 0"
| "swaps_on rt D p (w # ws) =
     (if now w = D \<and> swap_succeeded rt p w then 1 else 0) +
     swaps_on rt D (fst (loop_iter rt p w)) ws"

text \<open>The calls of \<open>swapOnce\<close> in the passes of a run.\<close>

fun attempts_in :: "runtime \<Rightarrow> program \<Rightarrow> world list \<Rightarrow> nat" where
  "attempts_in rt p [] = 0"
| "attempts_in rt p (w # ws) =
     (if swap_attempted rt p w then 1 else 0) + attempts_in rt (fst (loop_iter rt p w)) ws"

text \<open>The clock readings of line 100 never go back from one pass to a later one.\<close>

definition clock_monotone :: "world list \<Rightarrow> bool" where
  "clock_monotone ws = sorted_wrt (\<lambda>a b. date_le (now a) (now b)) ws"

definition is_sleep :: "event \<Rightarrow> bool" where
  "is_sleep ev = (case ev of SleepSeconds x \<Rightarrow> True | other \<Rightarrow> False)"

text \<open>
  \<open>AMOUNT_IN_BASE_UNITS\<close> is unset, is no number, or is not above zero (line 52
  also refuses an infinite one).
\<close>

definition bad_amount :: "runtime \<Rightarrow> env \<Rightarrow> bool" where
  "bad_amount rt e =
     (AMOUNT_IN_BASE_UNITS e = None \<or>
      Number_env rt (AMOUNT_IN_BASE_UNITS e) = NaN \<or>
      js_le (Number_env rt (AMOUNT_IN_BASE_UNITS e)) (Finite 0))"

section \<open>Example inputs\<close>

text \<open>
  A runtime whose string conversion is given on the strings the examples use, with
  constructors that accept every string, and a configuration that sells.
\<close>

definition example_runtime :: runtime where
  "example_runtime =
     \<lparr>StringToNumber =
        (\<lambda>s. if s = ''1000000'' then Finite 1000000
             else if s = ''2.5'' then Finite (5 / 2)
             else if s = ''1'' then Finite 1
             else if s = ''0'' then Finite 0
             else NaN),
      newPublicKey = (\<lambda>s. Inr (PublicKey s)),
      keypairFromSecretKey = (\<lambda>s. Inr (Keypair (PublicKey ''WalletKey'') s)),
      newConnection = (\<lambda>u. Inr (Connection u ''confirmed'')),
      deserialize =
        (\<lambda>j. case j of
               Some (JStr s) \<Rightarrow> Inr s
             | other \<Rightarrow> Inl (JsError ''TypeError'' ''not a string'')),
      sign_tx = (\<lambda>t k. Inr (t @ ''+signed''))\<rparr>"

definition example_env :: env where
  "example_env =
     \<lparr>RPC_URL = Some ''https://rpc.example'',
      PRIVATE_KEY_B58 = Some ''secret'',
      TOKEN_MINT = Some ''TokenMint'',
      QUOTE_MINT = Some ''QuoteMint'',
      SIDE = Some ''sell'',
      AMOUNT_IN_BASE_UNITS = Some ''1000000'',
      MAX_SLIPPAGE_BPS = None,
      INTERVAL_SECONDS = None,
      DAILY_BUDGET_TRADES = None,
      DISCORD_WEBHOOK_URL = Some ''https://hook.example''\<rparr>"

definition jan15 :: date where
  "jan15 = \<lparr>utc_year = 2024, utc_month = 0, utc_date = 15\<rparr>"

definition feb15 :: date where
  "feb15 = \<lparr>utc_year = 2024, utc_month = 1, utc_date = 15\<rparr>"

definition example_program :: program where
  "example_program =
     \<lparr>penv = example_env,
      conn = Connection ''https://rpc.example'' ''confirmed'',
      wallet = Keypair (PublicKey ''WalletKey'') ''secret'',
      TOKEN = PublicKey ''TokenMint'',
      QUOTE = PublicKey ''QuoteMint'',
      INPUT = PublicKey ''TokenMint'',
      OUTPUT = PublicKey ''QuoteMint'',
      tradesToday = 0,
      lastDay = 15\<rparr>"

text \<open>Every service answers and the transaction is confirmed.\<close>

definition good_world :: world where
  "good_world =
     \<lparr>now = jan15,
      now_log = jan15,
      fetch_quote =
        (\<lambda>q. Inr \<lparr>ok = True, statusText = ''OK'',
                   json_body = Inr (JObj [(''data'', JArr [JObj [(''outAmount'', JStr ''42'')]])])\<rparr>),
      fetch_swap =
        (\<lambda>b. Inr \<lparr>ok = True, statusText = ''OK'',
                   json_body = Inr (JObj [(''swapTransaction'', JStr ''AQID'')])\<rparr>),
      sendTransaction = (\<lambda>t. Inr ''5ig''),
      confirmTransaction = (\<lambda>s. Inr ()),
      fetch_webhook = (\<lambda>u m. Inr ())\<rparr>"

text \<open>The quote service cannot be reached, and neither can the webhook.\<close>

definition down_world :: world where
  "down_world =
     good_world
       \<lparr>fetch_quote := (\<lambda>q. Inl (JsError ''FetchError'' ''network down'')),
        fetch_webhook := (\<lambda>u m. Inl (JsError ''FetchError'' ''network down''))\<rparr>"

text \<open>The example program with \<open>AMOUNT_IN_BASE_UNITS\<close> unset.\<close>

definition no_amount :: program where
  "no_amount = example_program\<lparr>penv := example_env\<lparr>AMOUNT_IN_BASE_UNITS := None\<rparr>\<rparr>"

definition example_startup :: startup_world where
  "example_startup =
     \<lparr>start_now = jan15,
      getBalance = (\<lambda>k. Inr (Finite 5000000000)),
      online_webhook = (\<lambda>u m. Inr ())\<rparr>"

text \<open>The example program with a cap of one trade a day, and with a cap of 2.5.\<close>

definition one_a_day :: program where
  "one_a_day = example_program\<lparr>penv := example_env\<lparr>DAILY_BUDGET_TRADES := Some ''1''\<rparr>\<rparr>"

definition fractional_cap :: program where
  "fractional_cap = example_program\<lparr>penv := example_env\<lparr>DAILY_BUDGET_TRADES := Some ''2.5''\<rparr>\<rparr>"

section \<open>Basic facts\<close>

lemma discord_result: "snd (discord e post msg) = Inr ()"
  by (simp add: discord_def ret_def swallow_def split: option.splits)

lemma discord_events:
  "fst (discord e post msg) =
     (case DISCORD_WEBHOOK_URL e of
        None \<Rightarrow> []
      | Some url \<Rightarrow> if url = [] then [] else [WebhookPost url msg])"
  by (simp add: discord_def ret_def swallow_def call_def unset_or_empty_def
      split: option.splits)

lemma and_then_call:
  "and_then (call ev r) f =
     (case r of Inl e \<Rightarrow> ([ev], Inl e) | Inr a \<Rightarrow> (ev # fst (f a), snd (f a)))"
  by (simp add: and_then_def call_def split: sum.splits)

lemma and_then_pure:
  "and_then (pure_step r) f = (case r of Inl e \<Rightarrow> ([], Inl e) | Inr a \<Rightarrow> f a)"
  by (simp add: and_then_def pure_step_def split: sum.splits)

lemma fst_loop_iter: "fst (loop_iter rt p w) = fst (loop_body rt p w)"
  by (simp add: loop_iter_def split: prod.splits)

lemma fst_loop_body:
  "fst (loop_body rt p w) =
     (if swap_succeeded rt p w
      then (day_reset p (now w))\<lparr>tradesToday := tradesToday (day_reset p (now w)) + 1\<rparr>
      else day_reset p (now w))"
  by (simp add: loop_body_def swap_succeeded_def swap_attempted_def Let_def
      split: prod.splits sum.splits)

lemma loop_iter_result: "snd (snd (loop_iter rt p w)) = Inr ()"
  by (simp add: loop_iter_def and_then_def call_def discord_result
      split: prod.splits sum.splits)

lemma day_reset_frame:
  "day_reset p d = p\<lparr>tradesToday := tradesToday (day_reset p d), lastDay := lastDay (day_reset p d)\<rparr>"
  by (simp add: day_reset_def)

lemma loop_iter_frame:
  "fst (loop_iter rt p w) =
     p\<lparr>tradesToday := tradesToday (fst (loop_iter rt p w)),
       lastDay := lastDay (fst (loop_iter rt p w))\<rparr>"
  by (simp add: fst_loop_iter fst_loop_body day_reset_def)

lemma loop_iter_trades:
  "tradesToday (fst (loop_iter rt p w)) =
     tradesToday (day_reset p (now w)) + (if swap_succeeded rt p w then 1 else 0)"
  by (simp add: fst_loop_iter fst_loop_body)

lemma loop_iter_lastDay: "lastDay (fst (loop_iter rt p w)) = getUTCDate (now w)"
  by (simp add: fst_loop_iter fst_loop_body day_reset_def)

lemma loop_iter_penv: "penv (fst (loop_iter rt p w)) = penv p"
  by (simp add: fst_loop_iter fst_loop_body day_reset_def)

lemma loop_iter_cap: "cap rt (fst (loop_iter rt p w)) = cap rt p"
  by (simp add: cap_def loop_iter_penv)

lemma loop_run_result: "snd (snd (loop_run rt p ws)) = Inr ()"
proof (induction ws arbitrary: p)
  case Nil
  show ?case by (simp add: ret_def)
next
  case (Cons w ws)
  obtain p' evs r where it: "loop_iter rt p w = (p', (evs, r))"
    by (metis prod.exhaust)
  with loop_iter_result [of rt p w] have r: "r = Inr ()" by simp
  obtain p'' evs' r' where run: "loop_run rt p' ws = (p'', (evs', r'))"
    by (metis prod.exhaust)
  with Cons.IH [of p'] have "r' = Inr ()" by simp
  with it r run show ?case by simp
qed

lemma loop_run_Cons:
  "loop_run rt p (w # ws) =
     (fst (loop_run rt (fst (loop_iter rt p w)) ws),
      (fst (snd (loop_iter rt p w)) @ fst (snd (loop_run rt (fst (loop_iter rt p w)) ws)),
       Inr ()))"
proof -
  obtain p' evs r where it: "loop_iter rt p w = (p', (evs, r))"
    by (metis prod.exhaust)
  with loop_iter_result [of rt p w] have r: "r = Inr ()" by simp
  obtain p'' evs' r' where run: "loop_run rt p' ws = (p'', (evs', r'))"
    by (metis prod.exhaust)
  with loop_run_result [of rt p' ws] have "r' = Inr ()" by simp
  with it r run show ?thesis by simp
qed

lemma date_le_antisym: "date_le a b \<Longrightarrow> date_le b a \<Longrightarrow> a = b"
  by (auto simp add: date_le_def)


lemma day_reset_trades_le: "tradesToday (day_reset p d) \<le> tradesToday p"
  by (simp add: day_reset_def)

lemma day_reset_cap: "cap rt (day_reset p d) = cap rt p"
  by (simp add: cap_def day_reset_def)

lemma succeeded_below_cap:
  assumes "swap_succeeded rt p w" and "cap rt p = Finite c"
  shows "tradesToday (day_reset p (now w)) < nat \<lceil>c\<rceil>"
proof -
  from assms have "\<not> c \<le> of_nat (tradesToday (day_reset p (now w)))"
    by (simp add: swap_succeeded_def swap_attempted_def cap_reached_def js_ge_def
        day_reset_cap)
  then have "of_int (int (tradesToday (day_reset p (now w)))) < c" by simp
  then have "int (tradesToday (day_reset p (now w))) < \<lceil>c\<rceil>"
    by (simp only: less_ceiling_iff)
  then show ?thesis by simp
qed

lemma loop_iter_below_cap:
  assumes "cap rt p = Finite c" and "tradesToday p \<le> nat \<lceil>c\<rceil>"
  shows "tradesToday (fst (loop_iter rt p w)) \<le> nat \<lceil>c\<rceil>"
proof (cases "swap_succeeded rt p w")
  case True
  then have "tradesToday (day_reset p (now w)) < nat \<lceil>c\<rceil>"
    using assms(1) by (rule succeeded_below_cap)
  with True show ?thesis by (simp add: loop_iter_trades)
next
  case False
  with assms(2) day_reset_trades_le [of p "now w"] show ?thesis
    by (simp add: loop_iter_trades)
qed

lemma swaps_on_other_days:
  "\<forall>w \<in> set ws. now w \<noteq> D \<Longrightarrow> swaps_on rt D p ws = 0"
  by (induction ws arbitrary: p) auto

lemma swaps_on_within_day:
  assumes "cap rt p = Finite c"
    and "tradesToday p \<le> nat \<lceil>c\<rceil>"
    and "lastDay p = getUTCDate D"
    and "clock_monotone ws"
    and "\<forall>w \<in> set ws. date_le D (now w)"
  shows "swaps_on rt D p ws + tradesToday p \<le> nat \<lceil>c\<rceil>"
  using assms
proof (induction ws arbitrary: p)
  case Nil
  then show ?case by simp
next
  case (Cons w ws)
  let ?p' = "fst (loop_iter rt p w)"
  show ?case
  proof (cases "now w = D")
    case True
    with Cons.prems(3) have same: "day_reset p (now w) = p"
      by (simp add: day_reset_def)
    have "swaps_on rt D ?p' ws + tradesToday ?p' \<le> nat \<lceil>c\<rceil>"
    proof (rule Cons.IH)
      show "cap rt ?p' = Finite c" using Cons.prems(1) by (simp add: loop_iter_cap)
      show "tradesToday ?p' \<le> nat \<lceil>c\<rceil>"
        using Cons.prems(1,2) by (rule loop_iter_below_cap)
      show "lastDay ?p' = getUTCDate D" using True by (simp add: loop_iter_lastDay)
      show "clock_monotone ws" using Cons.prems(4) by (simp add: clock_monotone_def)
      show "\<forall>w \<in> set ws. date_le D (now w)" using Cons.prems(5) by simp
    qed
    with same show ?thesis by (auto simp add: loop_iter_trades)
  next
    case False
    have "\<forall>v \<in> set ws. now v \<noteq> D"
    proof
      fix v assume v: "v \<in> set ws"
      with Cons.prems(4) have "date_le (now w) (now v)"
        by (simp add: clock_monotone_def)
      moreover from Cons.prems(5) have "date_le D (now w)" by simp
      ultimately show "now v \<noteq> D" using False date_le_antisym by blast
    qed
    then have "swaps_on rt D ?p' ws = 0" by (rule swaps_on_other_days)
    with False Cons.prems(2) show ?thesis by simp
  qed
qed

lemma swaps_on_le_cap:
  assumes "cap rt p = Finite c"
    and "tradesToday p \<le> nat \<lceil>c\<rceil>"
    and "clock_monotone ws"
  shows "swaps_on rt D p ws \<le> nat \<lceil>c\<rceil>"
  using assms
proof (induction ws arbitrary: p)
  case Nil
  then show ?case by simp
next
  case (Cons w ws)
  let ?p' = "fst (loop_iter rt p w)"
  have cap': "cap rt ?p' = Finite c" using Cons.prems(1) by (simp add: loop_iter_cap)
  have le': "tradesToday ?p' \<le> nat \<lceil>c\<rceil>"
    using Cons.prems(1,2) by (rule loop_iter_below_cap)
  have mono': "clock_monotone ws" using Cons.prems(3) by (simp add: clock_monotone_def)
  show ?case
  proof (cases "now w = D")
    case True
    have later: "\<forall>v \<in> set ws. date_le D (now v)"
      using Cons.prems(3) True by (simp add: clock_monotone_def)
    have day': "lastDay ?p' = getUTCDate D" using True by (simp add: loop_iter_lastDay)
    have "swaps_on rt D ?p' ws + tradesToday ?p' \<le> nat \<lceil>c\<rceil>"
      using cap' le' day' mono' later by (rule swaps_on_within_day)
    moreover have "(if swap_succeeded rt p w then 1 else 0) \<le> tradesToday ?p'"
      by (simp add: loop_iter_trades)
    ultimately show ?thesis by (auto split: if_splits)
  next
    case False
    from cap' le' mono' have "swaps_on rt D ?p' ws \<le> nat \<lceil>c\<rceil>" by (rule Cons.IH)
    with False show ?thesis by simp
  qed
qed


lemma loop_iter_cap_reached:
  assumes "cap_reached rt (day_reset p (now w))"
  shows "loop_iter rt p w =
           (day_reset p (now w),
            (fst (discord (penv p) (fetch_webhook w) limit_message) @
               [SleepSeconds (interval rt p)],
             Inr ()))"
proof -
  have e: "penv (day_reset p (now w)) = penv p" by (simp add: day_reset_def)
  obtain evs r where d: "discord (penv p) (fetch_webhook w) limit_message = (evs, r)"
    by (metis prod.exhaust)
  with discord_result [of "penv p" "fetch_webhook w" limit_message] have "r = Inr ()"
    by simp
  with assms d e show ?thesis
    by (simp add: loop_iter_def loop_body_def Let_def and_then_def call_def interval_def)
qed

section \<open>Evaluating the examples\<close>

lemmas example_defs =
  example_runtime_def example_env_def example_program_def good_world_def down_world_def
  example_startup_def jan15_def feb15_def one_a_day_def fractional_cap_def

lemmas run_defs =
  swapOnce_def loop_body_def loop_iter_def discord_def day_reset_def cap_def
  cap_reached_def interval_def swap_attempted_def swap_succeeded_def
  Number_env_def Number_or_def js_ge_def getUTCDate_def unset_or_empty_def
  and_then_def call_def pure_step_def ret_def throw_def swallow_def new_Error_def
  destructure_def Let_def

lemma one_a_day_first:
  "swap_succeeded example_runtime one_a_day good_world"
  "fst (loop_iter example_runtime one_a_day good_world) = one_a_day\<lparr>tradesToday := 1\<rparr>"
  by (simp_all add: run_defs example_defs)

lemma one_a_day_second:
  "\<not> swap_succeeded example_runtime (one_a_day\<lparr>tradesToday := 1\<rparr>) good_world"
  "cap_reached example_runtime (day_reset (one_a_day\<lparr>tradesToday := 1\<rparr>) (now good_world))"
  by (simp_all add: run_defs example_defs)


section \<open>The daily cap\<close>

text \<open>
  C1, amended. A swap counts for the UTC day its pass read from the clock, and the
  clock readings of a run do not go back. When the cap
  \<open>Number(DAILY_BUDGET_TRADES ?? 100)\<close> is a finite number \<open>c\<close> and the counter
  starts at most at \<open>c\<close> rounded up, the successful swaps of any one day are at most
  \<open>c\<close> rounded up to a whole number (at least 0); for a cap that is a whole number
  \<open>n\<close>, the default 100 among them, that bound is \<open>n\<close> itself. In a pass
  where \<open>tradesToday >= cap\<close> holds after the day check, \<open>swapOnce\<close> is not
  called: the pass only hands the limit message to \<open>discord\<close> and sleeps. A pass
  adds exactly 1 to \<open>tradesToday\<close> when its swap succeeded and nothing otherwise.
\<close>

theorem daily_trade_cap:
  "(\<forall>c. cap rt p = Finite c \<and> tradesToday p \<le> nat \<lceil>c\<rceil> \<and> clock_monotone ws \<longrightarrow>
        swaps_on rt D p ws \<le> nat \<lceil>c\<rceil>) \<and>
   (\<forall>n. cap rt p = Finite (of_nat n) \<and> tradesToday p \<le> n \<and> clock_monotone ws \<longrightarrow>
        swaps_on rt D p ws \<le> n) \<and>
   (cap_reached rt (day_reset p (now w)) \<longrightarrow>
      loop_iter rt p w =
        (day_reset p (now w),
         (fst (discord (penv p) (fetch_webhook w) limit_message) @
            [SleepSeconds (interval rt p)],
          Inr ()))) \<and>
   tradesToday (fst (loop_iter rt p w)) =
     tradesToday (day_reset p (now w)) + (if swap_succeeded rt p w then 1 else 0)"
proof (intro conjI allI impI)
  fix c
  assume "cap rt p = Finite c \<and> tradesToday p \<le> nat \<lceil>c\<rceil> \<and> clock_monotone ws"
  then show "swaps_on rt D p ws \<le> nat \<lceil>c\<rceil>"
    using swaps_on_le_cap [of rt p c ws D] by simp
next
  fix n
  assume "cap rt p = Finite (of_nat n) \<and> tradesToday p \<le> n \<and> clock_monotone ws"
  then show "swaps_on rt D p ws \<le> n"
    using swaps_on_le_cap [of rt p "of_nat n" ws D] by simp
next
  assume "cap_reached rt (day_reset p (now w))"
  then show "loop_iter rt p w =
        (day_reset p (now w),
         (fst (discord (penv p) (fetch_webhook w) limit_message) @
            [SleepSeconds (interval rt p)],
          Inr ()))"
    by (rule loop_iter_cap_reached)
next
  show "tradesToday (fst (loop_iter rt p w)) =
     tradesToday (day_reset p (now w)) + (if swap_succeeded rt p w then 1 else 0)"
    by (rule loop_iter_trades)
qed

text \<open>
  With a cap of 1 the second pass of the day makes no swap and posts the limit message.
\<close>

theorem daily_trade_cap_witness:
  "cap example_runtime one_a_day = Finite (of_nat 1) \<and>
   tradesToday one_a_day \<le> 1 \<and>
   clock_monotone [good_world, good_world] \<and>
   swaps_on example_runtime jan15 one_a_day [good_world, good_world] = 1 \<and>
   swaps_on example_runtime jan15 one_a_day [good_world, good_world] \<le> 1 \<and>
   cap_reached example_runtime
     (day_reset (one_a_day\<lparr>tradesToday := 1\<rparr>) (now good_world)) \<and>
   loop_iter example_runtime (one_a_day\<lparr>tradesToday := 1\<rparr>) good_world =
     (one_a_day\<lparr>tradesToday := 1\<rparr>,
      ([WebhookPost ''https://hook.example'' limit_message, SleepSeconds (Finite 1200)],
       Inr ())) \<and>
   tradesToday (fst (loop_iter example_runtime one_a_day good_world)) = 1"
proof -
  have c: "cap example_runtime one_a_day = Finite (of_nat 1)"
    by (simp add: run_defs example_defs)
  have t: "tradesToday one_a_day \<le> 1" by (simp add: example_defs)
  have m: "clock_monotone [good_world, good_world]"
    by (simp add: clock_monotone_def date_le_def)
  have n: "swaps_on example_runtime jan15 one_a_day [good_world, good_world] = 1"
    by (simp add: one_a_day_first one_a_day_second) (simp add: run_defs example_defs)
  have r: "cap_reached example_runtime
     (day_reset (one_a_day\<lparr>tradesToday := 1\<rparr>) (now good_world))"
    by (rule one_a_day_second)
  have d: "day_reset (one_a_day\<lparr>tradesToday := 1\<rparr>) (now good_world) =
             one_a_day\<lparr>tradesToday := 1\<rparr>"
    by (simp add: run_defs example_defs)
  have ev: "fst (discord (penv (one_a_day\<lparr>tradesToday := 1\<rparr>)) (fetch_webhook good_world)
              limit_message) = [WebhookPost ''https://hook.example'' limit_message]"
    by (simp add: discord_events example_defs)
  have i: "interval example_runtime (one_a_day\<lparr>tradesToday := 1\<rparr>) = Finite 1200"
    by (simp add: run_defs example_defs)
  have s: "swap_succeeded example_runtime one_a_day good_world"
    by (rule one_a_day_first)
  have z: "tradesToday (day_reset one_a_day (now good_world)) = 0"
    by (simp add: run_defs example_defs)
  from daily_trade_cap [of example_runtime one_a_day "[good_world, good_world]" jan15
      good_world] c t m n s z
  have a: "swaps_on example_runtime jan15 one_a_day [good_world, good_world] \<le> 1 \<and>
      tradesToday (fst (loop_iter example_runtime one_a_day good_world)) = 1"
    by simp
  from daily_trade_cap [of example_runtime "one_a_day\<lparr>tradesToday := 1\<rparr>" "[]" jan15
      good_world] r d ev i
  have b: "loop_iter example_runtime (one_a_day\<lparr>tradesToday := 1\<rparr>) good_world =
     (one_a_day\<lparr>tradesToday := 1\<rparr>,
      ([WebhookPost ''https://hook.example'' limit_message, SleepSeconds (Finite 1200)],
       Inr ()))"
    by simp
  from c t m n a r b show ?thesis by simp
qed

text \<open>
  The claim as stated fails for a cap that is not a whole number: with
  \<open>DAILY_BUDGET_TRADES=2.5\<close> three swaps are made on one day.
\<close>

theorem daily_trade_cap_counterexample:
  "cap example_runtime fractional_cap = Finite (5 / 2) \<and>
   tradesToday fractional_cap = 0 \<and>
   clock_monotone [good_world, good_world, good_world] \<and>
   swaps_on example_runtime jan15 fractional_cap [good_world, good_world, good_world] = 3 \<and>
   \<not> js_le
       (Finite (of_nat (swaps_on example_runtime jan15 fractional_cap
                          [good_world, good_world, good_world])))
       (cap example_runtime fractional_cap)"
proof -
  have c: "cap example_runtime fractional_cap = Finite (5 / 2)"
    by (simp add: run_defs example_defs)
  have s: "swap_succeeded example_runtime (fractional_cap\<lparr>tradesToday := n\<rparr>) good_world
             = (n < 3)" for n
    by (simp add: run_defs example_defs) linarith
  have i: "fst (loop_iter example_runtime (fractional_cap\<lparr>tradesToday := n\<rparr>) good_world)
             = fractional_cap\<lparr>tradesToday := (if n < 3 then n + 1 else n)\<rparr>" for n
    by (simp add: fst_loop_iter fst_loop_body s) (simp add: run_defs example_defs)
  have z: "fractional_cap = fractional_cap\<lparr>tradesToday := 0\<rparr>"
    by (simp add: example_defs)
  have n: "swaps_on example_runtime jan15 (fractional_cap\<lparr>tradesToday := 0\<rparr>)
             [good_world, good_world, good_world] = 3"
    by (simp add: s i) (simp add: example_defs)
  have m: "clock_monotone [good_world, good_world, good_world]"
    by (simp add: clock_monotone_def date_le_def)
  from c n m z show ?thesis by (simp add: example_defs)
qed

section \<open>Events of a pass and of a run\<close>

declare loop_run.simps(2) [simp del]

lemma swapOnce_events_steps:
  "list_all (\<lambda>ev. step_of ev \<noteq> None) (fst (swapOnce rt p w))"
  by (simp add: swapOnce_def Let_def and_then_call and_then_pure throw_def ret_def
      split: sum.splits option.splits)

lemma discord_no_step: "ev \<in> set (fst (discord e post msg)) \<Longrightarrow> step_of ev = None"
  by (auto simp add: discord_events split: option.splits if_splits)

lemma discord_no_sleep: "ev \<in> set (fst (discord e post msg)) \<Longrightarrow> \<not> is_sleep ev"
  by (auto simp add: discord_events is_sleep_def split: option.splits if_splits)

lemma swapOnce_no_sleep: "ev \<in> set (fst (swapOnce rt p w)) \<Longrightarrow> \<not> is_sleep ev"
  using swapOnce_events_steps [of rt p w]
  by (cases ev) (auto simp add: is_sleep_def list_all_iff)

lemma loop_body_events:
  "fst (snd (loop_body rt p w)) =
     (if cap_reached rt (day_reset p (now w))
      then fst (discord (penv p) (fetch_webhook w) limit_message)
      else
        fst (swapOnce rt (day_reset p (now w)) w) @
        (case snd (swapOnce rt (day_reset p (now w)) w) of
           Inl e \<Rightarrow> []
         | Inr r \<Rightarrow>
             (case SIDE (penv p) of
                None \<Rightarrow> []
              | Some side \<Rightarrow>
                  fst (discord (penv p) (fetch_webhook w) (executed_message side r)) @
                  [ConsoleLog (swap_ok_line (now_log w) (sig r))])))"
proof -
  have e: "penv (day_reset p (now w)) = penv p" by (simp add: day_reset_def)
  show ?thesis
    by (simp add: loop_body_def Let_def e and_then_def call_def throw_def discord_result
        split: prod.splits sum.splits option.splits)
qed

lemma loop_body_no_sleep: "ev \<in> set (fst (snd (loop_body rt p w))) \<Longrightarrow> \<not> is_sleep ev"
  by (auto simp add: loop_body_events is_sleep_def
      dest: discord_no_sleep swapOnce_no_sleep split: if_splits sum.splits option.splits)

lemma loop_iter_events:
  "fst (snd (loop_iter rt p w)) =
     fst (snd (loop_body rt p w)) @
     (case snd (snd (loop_body rt p w)) of
        Inr u \<Rightarrow> []
      | Inl e \<Rightarrow> ConsoleError e # fst (discord (penv p) (fetch_webhook w) (error_message e))) @
     [SleepSeconds (interval rt p)]"
proof -
  have e: "penv (fst (loop_body rt p w)) = penv p"
    by (simp add: fst_loop_body day_reset_def)
  then have i: "interval rt (fst (loop_body rt p w)) = interval rt p"
    by (simp add: interval_def)
  obtain p' evs r where b: "loop_body rt p w = (p', (evs, r))"
    by (metis prod.exhaust)
  with e i have "penv p' = penv p" "interval rt p' = interval rt p" by simp_all
  with b show ?thesis
    by (simp add: loop_iter_def and_then_def call_def discord_result split: sum.splits)
qed

lemma loop_iter_one_sleep: "length (filter is_sleep (fst (snd (loop_iter rt p w)))) = 1"
proof -
  have "filter is_sleep (fst (snd (loop_body rt p w))) = []"
    by (simp add: filter_empty_conv loop_body_no_sleep)
  moreover have "filter is_sleep
     (case snd (snd (loop_body rt p w)) of
        Inr u \<Rightarrow> []
      | Inl e \<Rightarrow> ConsoleError e # fst (discord (penv p) (fetch_webhook w) (error_message e))) = []"
    by (auto simp add: filter_empty_conv is_sleep_def dest: discord_no_sleep split: sum.splits)
  ultimately show ?thesis by (simp add: loop_iter_events is_sleep_def)
qed

lemma loop_run_sleeps: "length (filter is_sleep (fst (snd (loop_run rt p ws)))) = length ws"
proof (induction ws arbitrary: p)
  case Nil
  show ?case by (simp add: ret_def)
next
  case (Cons w ws)
  then show ?case by (simp add: loop_run_Cons loop_iter_one_sleep)
qed

lemma loop_run_frame:
  "fst (loop_run rt p ws) =
     p\<lparr>tradesToday := tradesToday (fst (loop_run rt p ws)),
       lastDay := lastDay (fst (loop_run rt p ws))\<rparr>"
proof (induction ws arbitrary: p)
  case Nil
  show ?case by (simp add: ret_def)
next
  case (Cons w ws)
  let ?p' = "fst (loop_iter rt p w)"
  have "fst (loop_run rt p (w # ws)) = fst (loop_run rt ?p' ws)"
    by (simp add: loop_run_Cons)
  also have "\<dots> = ?p'\<lparr>tradesToday := tradesToday (fst (loop_run rt ?p' ws)),
       lastDay := lastDay (fst (loop_run rt ?p' ws))\<rparr>"
    by (rule Cons.IH)
  also have "\<dots> = p\<lparr>tradesToday := tradesToday (fst (loop_run rt ?p' ws)),
       lastDay := lastDay (fst (loop_run rt ?p' ws))\<rparr>"
    by (subst loop_iter_frame) simp
  finally show ?case by (simp add: loop_run_Cons)
qed

section \<open>Errors never end the loop\<close>

text \<open>
  C2. A pass of the loop never ends the loop: whatever the \<open>try\<close> block did, the
  pass does not throw. When the \<open>try\<close> block threw \<open>e\<close>, the pass goes on with
  \<open>console.error(e)\<close> and hands the error message to \<open>discord\<close>; in every case
  the last thing it does is the sleep of \<open>Number(INTERVAL_SECONDS ?? 1200)\<close>
  seconds. So a run makes every pass it is given answers for, one sleep each. (How
  long the timer then waits is the runtime's matter and is not modelled.)
\<close>

theorem loop_survives_errors:
  "snd (snd (loop_iter rt p w)) = Inr () \<and>
   fst (snd (loop_iter rt p w)) =
     fst (snd (loop_body rt p w)) @
     (case snd (snd (loop_body rt p w)) of
        Inr u \<Rightarrow> []
      | Inl e \<Rightarrow> ConsoleError e # fst (discord (penv p) (fetch_webhook w) (error_message e))) @
     [SleepSeconds (Number_or rt (INTERVAL_SECONDS (penv p)) 1200)] \<and>
   snd (snd (loop_run rt p ws)) = Inr () \<and>
   length (filter is_sleep (fst (snd (loop_run rt p ws)))) = length ws"
  using loop_iter_result [of rt p w] loop_iter_events [of rt p w]
    loop_run_result [of rt p ws] loop_run_sleeps [of rt p ws]
  by (simp add: interval_def)

text \<open>A pass whose quote request fails, followed by a pass that trades.\<close>

theorem loop_survives_errors_witness:
  "snd (snd (loop_body example_runtime example_program down_world)) =
     Inl (JsError ''FetchError'' ''network down'') \<and>
   loop_iter example_runtime example_program down_world =
     (example_program,
      ([FetchQuote \<lparr>inputMint = ''TokenMint'', outputMint = ''QuoteMint'',
                    amount_param = Finite 1000000, slippageBps = ''50'',
                    onlyDirectRoutes = ''false''\<rparr>,
        ConsoleError (JsError ''FetchError'' ''network down''),
        WebhookPost ''https://hook.example''
          (error_message (JsError ''FetchError'' ''network down'')),
        SleepSeconds (Finite 1200)],
       Inr ())) \<and>
   snd (snd (loop_run example_runtime example_program [down_world, good_world])) = Inr () \<and>
   length (filter is_sleep
     (fst (snd (loop_run example_runtime example_program [down_world, good_world])))) = 2"
proof -
  have b: "loop_body example_runtime example_program down_world =
     (example_program,
      ([FetchQuote \<lparr>inputMint = ''TokenMint'', outputMint = ''QuoteMint'',
                    amount_param = Finite 1000000, slippageBps = ''50'',
                    onlyDirectRoutes = ''false''\<rparr>],
       Inl (JsError ''FetchError'' ''network down'')))"
    by (simp add: run_defs example_defs)
  have d: "fst (discord (penv example_program) (fetch_webhook down_world)
              (error_message (JsError ''FetchError'' ''network down''))) =
           [WebhookPost ''https://hook.example''
              (error_message (JsError ''FetchError'' ''network down''))]"
    by (simp add: discord_events example_defs)
  have i: "Number_or example_runtime (INTERVAL_SECONDS (penv example_program)) 1200 =
           Finite 1200"
    by (simp add: Number_or_def example_defs)
  have f: "fst (loop_iter example_runtime example_program down_world) = example_program"
    by (simp add: fst_loop_iter b)
  from loop_survives_errors [of example_runtime example_program down_world
      "[down_world, good_world]"] b d i f
  show ?thesis by (simp add: prod_eq_iff)
qed

section \<open>What a pass changes\<close>

text \<open>
  C6. Of the module state, a pass of the loop, and so any run of passes, changes at
  most \<open>tradesToday\<close> and \<open>lastDay\<close>: the configuration, the connection, the
  wallet and the mints are afterwards what they were before.
\<close>

theorem loop_changes_only_counters:
  "fst (loop_iter rt p w) =
     p\<lparr>tradesToday := tradesToday (fst (loop_iter rt p w)),
       lastDay := lastDay (fst (loop_iter rt p w))\<rparr> \<and>
   fst (loop_run rt p ws) =
     p\<lparr>tradesToday := tradesToday (fst (loop_run rt p ws)),
       lastDay := lastDay (fst (loop_run rt p ws))\<rparr>"
  using loop_iter_frame [of rt p w] loop_run_frame [of rt p ws] by simp

text \<open>Two passes on the day after the last reset: only the two counters differ.\<close>

theorem loop_changes_only_counters_witness:
  "fst (loop_run example_runtime (example_program\<lparr>lastDay := 14\<rparr>) [good_world, down_world]) =
     example_program\<lparr>tradesToday := 1, lastDay := 15\<rparr>"
proof -
  have t: "tradesToday (fst (loop_run example_runtime (example_program\<lparr>lastDay := 14\<rparr>)
             [good_world, down_world])) = 1"
    by (simp add: loop_run_Cons fst_loop_iter fst_loop_body ret_def)
       (simp add: run_defs example_defs)
  have l: "lastDay (fst (loop_run example_runtime (example_program\<lparr>lastDay := 14\<rparr>)
             [good_world, down_world])) = 15"
    by (simp add: loop_run_Cons loop_iter_lastDay ret_def fst_loop_iter fst_loop_body)
       (simp add: run_defs example_defs)
  from loop_changes_only_counters [of example_runtime "example_program\<lparr>lastDay := 14\<rparr>"
      good_world "[good_world, down_world]"] t l
  show ?thesis by simp
qed

section \<open>Notifications\<close>

text \<open>
  C7. \<open>discord\<close> never throws, whatever the webhook request does. When
  \<open>DISCORD_WEBHOOK_URL\<close> is unset (or empty) it returns without any request;
  otherwise it makes the one request and swallows its failure.
\<close>

theorem discord_best_effort:
  "snd (discord e post msg) = Inr () \<and>
   (DISCORD_WEBHOOK_URL e = None \<or> DISCORD_WEBHOOK_URL e = Some [] \<longrightarrow>
      discord e post msg = ([], Inr ())) \<and>
   (\<forall>url. DISCORD_WEBHOOK_URL e = Some url \<and> url \<noteq> [] \<longrightarrow>
      discord e post msg = ([WebhookPost url msg], Inr ()))"
  using discord_result [of e post msg] discord_events [of e post msg]
  by (auto simp add: prod_eq_iff)

text \<open>No webhook configured; and a webhook that cannot be reached.\<close>

theorem discord_best_effort_witness:
  "DISCORD_WEBHOOK_URL (example_env\<lparr>DISCORD_WEBHOOK_URL := None\<rparr>) = None \<and>
   discord (example_env\<lparr>DISCORD_WEBHOOK_URL := None\<rparr>) (fetch_webhook down_world)
     limit_message = ([], Inr ()) \<and>
   DISCORD_WEBHOOK_URL example_env = Some ''https://hook.example'' \<and>
   fetch_webhook down_world ''https://hook.example'' limit_message =
     Inl (JsError ''FetchError'' ''network down'') \<and>
   discord example_env (fetch_webhook down_world) limit_message =
     ([WebhookPost ''https://hook.example'' limit_message], Inr ())"
proof -
  have u: "DISCORD_WEBHOOK_URL (example_env\<lparr>DISCORD_WEBHOOK_URL := None\<rparr>) = None" by simp
  have s: "DISCORD_WEBHOOK_URL example_env = Some ''https://hook.example''"
    by (simp add: example_defs)
  have f: "fetch_webhook down_world ''https://hook.example'' limit_message =
     Inl (JsError ''FetchError'' ''network down'')"
    by (simp add: example_defs)
  from discord_best_effort [of "example_env\<lparr>DISCORD_WEBHOOK_URL := None\<rparr>"
      "fetch_webhook down_world" limit_message] u
  have a: "discord (example_env\<lparr>DISCORD_WEBHOOK_URL := None\<rparr>) (fetch_webhook down_world)
     limit_message = ([], Inr ())"
    by simp
  from discord_best_effort [of example_env "fetch_webhook down_world" limit_message] s
  have b: "discord example_env (fetch_webhook down_world) limit_message =
     ([WebhookPost ''https://hook.example'' limit_message], Inr ())"
    by simp
  from u s f a b show ?thesis by simp
qed

section \<open>The steps of a swap\<close>

lemma steps_append: "steps (xs @ ys) = steps xs @ steps ys"
  by (induction xs) (simp_all split: option.splits)

lemma swapOnce_steps: "prefix (steps (fst (swapOnce rt p w))) chain"
  by (simp add: swapOnce_def chain_def Let_def and_then_call and_then_pure throw_def
      ret_def split: sum.splits option.splits)

lemma swapOnce_earlier_steps:
  "list_all (step_succeeded rt p w) (butlast (fst (swapOnce rt p w)))"
  by (simp add: swapOnce_def Let_def and_then_call and_then_pure throw_def ret_def
      split: sum.splits option.splits)

lemma swapOnce_returns:
  assumes "snd (swapOnce rt p w) = Inr r"
  shows "steps (fst (swapOnce rt p w)) = chain \<and>
         list_all (step_succeeded rt p w) (fst (swapOnce rt p w)) \<and>
         last (fst (swapOnce rt p w)) = ConfirmTransaction (sig r) \<and>
         inMint r = toBase58 (INPUT p) \<and>
         outMint r = toBase58 (OUTPUT p) \<and>
         amount r = Number_env rt (AMOUNT_IN_BASE_UNITS (penv p))"
  using assms
  by (auto simp add: swapOnce_def chain_def Let_def and_then_call and_then_pure throw_def
      ret_def split: sum.splits option.splits if_splits)

lemma loop_body_result:
  "snd (snd (loop_body rt p w)) =
     (if cap_reached rt (day_reset p (now w)) then Inr ()
      else
        case snd (swapOnce rt (day_reset p (now w)) w) of
          Inl e \<Rightarrow> Inl e
        | Inr r \<Rightarrow>
            (case SIDE (penv p) of
               None \<Rightarrow> Inl (JsError ''TypeError'' ''Cannot read properties of undefined'')
             | Some side \<Rightarrow> Inr ()))"
proof -
  have e: "penv (day_reset p (now w)) = penv p" by (simp add: day_reset_def)
  show ?thesis
    by (simp add: loop_body_def Let_def e and_then_def call_def throw_def discord_result
        split: prod.splits sum.splits option.splits)
qed

lemma discord_steps: "steps (fst (discord e post msg)) = []"
  by (simp add: discord_events split: option.splits)

lemma loop_iter_steps:
  "steps (fst (snd (loop_iter rt p w))) =
     (if swap_attempted rt p w then steps (fst (swapOnce rt (day_reset p (now w)) w)) else [])"
  by (simp add: loop_iter_events loop_body_events loop_body_result swap_attempted_def
      steps_append discord_steps split: sum.splits option.splits)

text \<open>
  C4. The calls of \<open>swapOnce\<close> are an initial part of the chain quote, build, sign,
  submit, confirm, in this order; a call is made only when every step before it
  succeeded. When \<open>swapOnce\<close> returns, it has made each of the five calls exactly
  once, all five succeeded, the last thing it did was the confirmation of the signature
  it returns, and the result carries that signature, the input mint, the output mint
  and the amount. A pass of the loop whose swap succeeded contains exactly this one
  pass of the chain.
\<close>

theorem swapOnce_call_chain:
  "prefix (steps (fst (swapOnce rt p w))) chain \<and>
   list_all (step_succeeded rt p w) (butlast (fst (swapOnce rt p w))) \<and>
   (\<forall>r. snd (swapOnce rt p w) = Inr r \<longrightarrow>
      steps (fst (swapOnce rt p w)) = chain \<and>
      list_all (step_succeeded rt p w) (fst (swapOnce rt p w)) \<and>
      last (fst (swapOnce rt p w)) = ConfirmTransaction (sig r) \<and>
      inMint r = toBase58 (INPUT p) \<and>
      outMint r = toBase58 (OUTPUT p) \<and>
      amount r = Number_env rt (AMOUNT_IN_BASE_UNITS (penv p))) \<and>
   (swap_succeeded rt p w \<longrightarrow> steps (fst (snd (loop_iter rt p w))) = chain)"
proof (intro conjI allI impI)
  show "prefix (steps (fst (swapOnce rt p w))) chain" by (rule swapOnce_steps)
  show "list_all (step_succeeded rt p w) (butlast (fst (swapOnce rt p w)))"
    by (rule swapOnce_earlier_steps)
next
  fix r
  assume "snd (swapOnce rt p w) = Inr r"
  from swapOnce_returns [OF this]
  show "steps (fst (swapOnce rt p w)) = chain"
    and "list_all (step_succeeded rt p w) (fst (swapOnce rt p w))"
    and "last (fst (swapOnce rt p w)) = ConfirmTransaction (sig r)"
    and "inMint r = toBase58 (INPUT p)"
    and "outMint r = toBase58 (OUTPUT p)"
    and "amount r = Number_env rt (AMOUNT_IN_BASE_UNITS (penv p))"
    by simp_all
next
  assume s: "swap_succeeded rt p w"
  then obtain r where "snd (swapOnce rt (day_reset p (now w)) w) = Inr r"
    by (auto simp add: swap_succeeded_def split: sum.splits)
  from swapOnce_returns [OF this]
  have "steps (fst (swapOnce rt (day_reset p (now w)) w)) = chain" by simp
  with s show "steps (fst (snd (loop_iter rt p w))) = chain"
    by (simp add: loop_iter_steps swap_succeeded_def)
qed

text \<open>A swap that goes through, and one that stops at the quote request.\<close>

theorem swapOnce_call_chain_witness:
  "swapOnce example_runtime example_program good_world =
     ([FetchQuote \<lparr>inputMint = ''TokenMint'', outputMint = ''QuoteMint'',
                   amount_param = Finite 1000000, slippageBps = ''50'',
                   onlyDirectRoutes = ''false''\<rparr>,
       FetchSwap \<lparr>quoteResponse = JObj [(''outAmount'', JStr ''42'')],
                  userPublicKey = ''WalletKey'', wrapAndUnwrapSol = True,
                  dynamicComputeUnitLimit = True,
                  prioritizationFeeLamports = ''auto''\<rparr>,
       SignTx ''AQID'', SendTransaction ''AQID+signed'', ConfirmTransaction ''5ig''],
      Inr \<lparr>sig = ''5ig'', inMint = ''TokenMint'', outMint = ''QuoteMint'',
           amount = Finite 1000000\<rparr>) \<and>
   steps (fst (swapOnce example_runtime example_program good_world)) = chain \<and>
   list_all (step_succeeded example_runtime example_program good_world)
     (fst (swapOnce example_runtime example_program good_world)) \<and>
   swap_succeeded example_runtime example_program good_world \<and>
   steps (fst (snd (loop_iter example_runtime example_program good_world))) = chain \<and>
   fst (swapOnce example_runtime example_program down_world) =
     [FetchQuote \<lparr>inputMint = ''TokenMint'', outputMint = ''QuoteMint'',
                  amount_param = Finite 1000000, slippageBps = ''50'',
                  onlyDirectRoutes = ''false''\<rparr>] \<and>
   prefix (steps (fst (swapOnce example_runtime example_program down_world))) chain"
proof -
  have g: "swapOnce example_runtime example_program good_world =
     ([FetchQuote \<lparr>inputMint = ''TokenMint'', outputMint = ''QuoteMint'',
                   amount_param = Finite 1000000, slippageBps = ''50'',
                   onlyDirectRoutes = ''false''\<rparr>,
       FetchSwap \<lparr>quoteResponse = JObj [(''outAmount'', JStr ''42'')],
                  userPublicKey = ''WalletKey'', wrapAndUnwrapSol = True,
                  dynamicComputeUnitLimit = True,
                  prioritizationFeeLamports = ''auto''\<rparr>,
       SignTx ''AQID'', SendTransaction ''AQID+signed'', ConfirmTransaction ''5ig''],
      Inr \<lparr>sig = ''5ig'', inMint = ''TokenMint'', outMint = ''QuoteMint'',
           amount = Finite 1000000\<rparr>)"
    by (simp add: run_defs example_defs)
  have d: "fst (swapOnce example_runtime example_program down_world) =
     [FetchQuote \<lparr>inputMint = ''TokenMint'', outputMint = ''QuoteMint'',
                  amount_param = Finite 1000000, slippageBps = ''50'',
                  onlyDirectRoutes = ''false''\<rparr>]"
    by (simp add: run_defs example_defs)
  have s: "swap_succeeded example_runtime example_program good_world"
    by (simp add: run_defs example_defs)
  have r: "snd (swapOnce example_runtime example_program good_world) =
     Inr \<lparr>sig = ''5ig'', inMint = ''TokenMint'', outMint = ''QuoteMint'',
          amount = Finite 1000000\<rparr>"
    by (simp add: g)
  note good = swapOnce_call_chain [of example_runtime example_program good_world]
  from good r
  have a1: "steps (fst (swapOnce example_runtime example_program good_world)) = chain"
    by blast
  from good r
  have a2: "list_all (step_succeeded example_runtime example_program good_world)
        (fst (swapOnce example_runtime example_program good_world))"
    by blast
  from good s
  have a3: "steps (fst (snd (loop_iter example_runtime example_program good_world))) = chain"
    by blast
  from swapOnce_call_chain [of example_runtime example_program down_world]
  have b: "prefix (steps (fst (swapOnce example_runtime example_program down_world))) chain"
    by blast
  from g d s a1 a2 a3 b show ?thesis by blast
qed

section \<open>The counter and failed passes\<close>

text \<open>
  C10. When \<open>swapOnce\<close> throws, at whatever step, the pass leaves
  \<open>tradesToday\<close> at the value the day check gave it: the value before the pass, or 0
  after a reset. The same holds whenever the \<open>try\<close> block throws, \<open>SIDE\<close> being
  set as line 25 requires. A pass that does change the counter after the day check
  adds exactly 1, and only after \<open>swapOnce\<close> has returned, that is after every
  step up to the confirmation succeeded.
\<close>

theorem counter_untouched_on_failure:
  "(\<forall>e. swap_attempted rt p w \<and> snd (swapOnce rt (day_reset p (now w)) w) = Inl e \<longrightarrow>
        tradesToday (fst (loop_iter rt p w)) = tradesToday (day_reset p (now w))) \<and>
   (\<forall>e. SIDE (penv p) \<noteq> None \<and> snd (snd (loop_body rt p w)) = Inl e \<longrightarrow>
        tradesToday (fst (loop_iter rt p w)) = tradesToday (day_reset p (now w))) \<and>
   (tradesToday (day_reset p (now w)) = tradesToday p \<or>
    tradesToday (day_reset p (now w)) = 0) \<and>
   (tradesToday (fst (loop_iter rt p w)) \<noteq> tradesToday (day_reset p (now w)) \<longrightarrow>
      (\<exists>r. snd (swapOnce rt (day_reset p (now w)) w) = Inr r \<and>
           last (fst (swapOnce rt (day_reset p (now w)) w)) = ConfirmTransaction (sig r) \<and>
           list_all (step_succeeded rt (day_reset p (now w)) w)
             (fst (swapOnce rt (day_reset p (now w)) w)) \<and>
           tradesToday (fst (loop_iter rt p w)) = tradesToday (day_reset p (now w)) + 1))"
proof (intro conjI allI impI)
  fix e
  assume "swap_attempted rt p w \<and> snd (swapOnce rt (day_reset p (now w)) w) = Inl e"
  then have "\<not> swap_succeeded rt p w" by (simp add: swap_succeeded_def)
  then show "tradesToday (fst (loop_iter rt p w)) = tradesToday (day_reset p (now w))"
    by (simp add: loop_iter_trades)
next
  fix e
  assume a: "SIDE (penv p) \<noteq> None \<and> snd (snd (loop_body rt p w)) = Inl e"
  then have "\<not> swap_succeeded rt p w"
    by (auto simp add: loop_body_result swap_succeeded_def swap_attempted_def
        split: if_splits sum.splits option.splits)
  then show "tradesToday (fst (loop_iter rt p w)) = tradesToday (day_reset p (now w))"
    by (simp add: loop_iter_trades)
next
  show "tradesToday (day_reset p (now w)) = tradesToday p \<or>
    tradesToday (day_reset p (now w)) = 0"
    by (simp add: day_reset_def)
next
  assume "tradesToday (fst (loop_iter rt p w)) \<noteq> tradesToday (day_reset p (now w))"
  then have s: "swap_succeeded rt p w"
    by (simp add: loop_iter_trades split: if_splits)
  then obtain r where r: "snd (swapOnce rt (day_reset p (now w)) w) = Inr r"
    by (auto simp add: swap_succeeded_def split: sum.splits)
  from swapOnce_returns [OF r]
  have "last (fst (swapOnce rt (day_reset p (now w)) w)) = ConfirmTransaction (sig r)"
    and "list_all (step_succeeded rt (day_reset p (now w)) w)
             (fst (swapOnce rt (day_reset p (now w)) w))"
    by simp_all
  with r s show "\<exists>r. snd (swapOnce rt (day_reset p (now w)) w) = Inr r \<and>
           last (fst (swapOnce rt (day_reset p (now w)) w)) = ConfirmTransaction (sig r) \<and>
           list_all (step_succeeded rt (day_reset p (now w)) w)
             (fst (swapOnce rt (day_reset p (now w)) w)) \<and>
           tradesToday (fst (loop_iter rt p w)) = tradesToday (day_reset p (now w)) + 1"
    by (auto simp add: loop_iter_trades)
qed

text \<open>A failed pass and a successful one, both starting from seven trades.\<close>

theorem counter_untouched_on_failure_witness:
  "swap_attempted example_runtime (example_program\<lparr>tradesToday := 7\<rparr>) down_world \<and>
   SIDE (penv (example_program\<lparr>tradesToday := 7\<rparr>)) = Some ''sell'' \<and>
   snd (swapOnce example_runtime
          (day_reset (example_program\<lparr>tradesToday := 7\<rparr>) (now down_world)) down_world) =
     Inl (JsError ''FetchError'' ''network down'') \<and>
   snd (snd (loop_body example_runtime (example_program\<lparr>tradesToday := 7\<rparr>) down_world)) =
     Inl (JsError ''FetchError'' ''network down'') \<and>
   tradesToday (day_reset (example_program\<lparr>tradesToday := 7\<rparr>) (now down_world)) = 7 \<and>
   tradesToday (fst (loop_iter example_runtime (example_program\<lparr>tradesToday := 7\<rparr>)
                       down_world)) = 7 \<and>
   tradesToday (day_reset (example_program\<lparr>tradesToday := 7\<rparr>) (now good_world)) = 7 \<and>
   tradesToday (fst (loop_iter example_runtime (example_program\<lparr>tradesToday := 7\<rparr>)
                       good_world)) = 8"
proof -
  let ?p = "example_program\<lparr>tradesToday := 7\<rparr>"
  have a: "swap_attempted example_runtime ?p down_world"
    by (simp add: run_defs example_defs)
  have s: "SIDE (penv ?p) = Some ''sell''" by (simp add: example_defs)
  have x: "snd (swapOnce example_runtime (day_reset ?p (now down_world)) down_world) =
     Inl (JsError ''FetchError'' ''network down'')"
    by (simp add: run_defs example_defs)
  have b: "snd (snd (loop_body example_runtime ?p down_world)) =
     Inl (JsError ''FetchError'' ''network down'')"
    by (simp add: run_defs example_defs)
  have d: "tradesToday (day_reset ?p (now down_world)) = 7"
    by (simp add: run_defs example_defs)
  have d': "tradesToday (day_reset ?p (now good_world)) = 7"
    by (simp add: run_defs example_defs)
  have g: "tradesToday (fst (loop_iter example_runtime ?p good_world)) = 8"
    by (simp add: fst_loop_iter fst_loop_body) (simp add: run_defs example_defs)
  from counter_untouched_on_failure [of example_runtime ?p down_world] a x d
  have "tradesToday (fst (loop_iter example_runtime ?p down_world)) = 7"
    by simp
  with a s x b d d' g show ?thesis by simp
qed

section \<open>The day check\<close>

text \<open>
  C3. Line 102 compares the day of the month only: the counter is reset exactly when
  \<open>getUTCDate\<close> of the clock differs from \<open>lastDay\<close>. After a trade on
  15 January with a cap of 1, a pass on 15 February finds the same day of the month,
  keeps \<open>tradesToday = 1\<close> and posts the limit message, although the UTC day
  changed.
\<close>

theorem no_reset_one_month_apart:
  "tradesToday (day_reset p d) = (if getUTCDate d = lastDay p then tradesToday p else 0) \<and>
   lastDay (day_reset p d) = getUTCDate d \<and>
   lastDay (one_a_day\<lparr>tradesToday := 1\<rparr>) = getUTCDate jan15 \<and>
   feb15 \<noteq> jan15 \<and>
   day_reset (one_a_day\<lparr>tradesToday := 1\<rparr>) feb15 = one_a_day\<lparr>tradesToday := 1\<rparr> \<and>
   loop_iter example_runtime (one_a_day\<lparr>tradesToday := 1\<rparr>) (good_world\<lparr>now := feb15\<rparr>) =
     (one_a_day\<lparr>tradesToday := 1\<rparr>,
      ([WebhookPost ''https://hook.example'' limit_message, SleepSeconds (Finite 1200)],
       Inr ()))"
proof -
  have "tradesToday (day_reset p d) = (if getUTCDate d = lastDay p then tradesToday p else 0)"
    and "lastDay (day_reset p d) = getUTCDate d"
    by (simp_all add: day_reset_def)
  moreover have "lastDay (one_a_day\<lparr>tradesToday := 1\<rparr>) = getUTCDate jan15"
    and "feb15 \<noteq> jan15"
    and "day_reset (one_a_day\<lparr>tradesToday := 1\<rparr>) feb15 = one_a_day\<lparr>tradesToday := 1\<rparr>"
    by (simp_all add: run_defs example_defs)
  moreover have "loop_iter example_runtime (one_a_day\<lparr>tradesToday := 1\<rparr>)
      (good_world\<lparr>now := feb15\<rparr>) =
     (one_a_day\<lparr>tradesToday := 1\<rparr>,
      ([WebhookPost ''https://hook.example'' limit_message, SleepSeconds (Finite 1200)],
       Inr ()))"
    by (simp add: run_defs example_defs)
  ultimately show ?thesis by simp
qed

section \<open>Retries\<close>

lemma loop_iter_chain: "prefix (steps (fst (snd (loop_iter rt p w)))) chain"
  by (simp add: loop_iter_steps swapOnce_steps)

lemma attempts_in_le: "attempts_in rt p ws \<le> length ws"
  by (induction ws arbitrary: p) (simp_all add: le_SucI)

lemma js_ge_zero: "\<not> js_ge (Finite (of_nat t)) c \<Longrightarrow> \<not> js_ge (Finite 0) c"
proof (cases c)
  case (Finite r)
  assume "\<not> js_ge (Finite (of_nat t)) c"
  with Finite have "of_nat t < r" by (simp add: js_ge_def)
  moreover have "(0::rat) \<le> of_nat t" by simp
  ultimately have "0 < r" by simp
  with Finite show ?thesis by (simp add: js_ge_def)
qed (simp_all add: js_ge_def)

lemma attempted_again:
  assumes "swap_attempted rt p w" and "\<not> swap_succeeded rt p w"
  shows "swap_attempted rt (fst (loop_iter rt p w)) w'"
proof -
  let ?p1 = "day_reset p (now w)"
  from assms(2) have p1: "fst (loop_iter rt p w) = ?p1"
    by (simp add: fst_loop_iter fst_loop_body)
  have c: "cap rt (day_reset ?p1 (now w')) = cap rt ?p1"
    by (rule day_reset_cap)
  from assms(1) have n: "\<not> js_ge (Finite (of_nat (tradesToday ?p1))) (cap rt ?p1)"
    by (simp add: swap_attempted_def cap_reached_def)
  then have z: "\<not> js_ge (Finite 0) (cap rt ?p1)" by (rule js_ge_zero)
  have "tradesToday (day_reset ?p1 (now w')) = tradesToday ?p1 \<or>
        tradesToday (day_reset ?p1 (now w')) = 0"
    by (simp add: day_reset_def)
  with n z c have "\<not> cap_reached rt (day_reset ?p1 (now w'))"
    by (auto simp add: cap_reached_def)
  with p1 show ?thesis by (simp add: swap_attempted_def)
qed

lemma down_world_pass:
  "swap_attempted example_runtime example_program down_world"
  "fst (loop_iter example_runtime example_program down_world) = example_program"
  by (simp_all add: fst_loop_iter fst_loop_body) (simp_all add: run_defs example_defs)

lemma down_world_attempts:
  "attempts_in example_runtime example_program (replicate n down_world) = n"
  by (induction n) (simp_all add: down_world_pass)

text \<open>
  C5, amended. The loop is a retry cycle without a bound. A pass calls \<open>swapOnce\<close>
  at most once and makes at most one pass of the call chain, so there is no retry
  inside a pass and \<open>n\<close> passes make at most \<open>n\<close> attempts. A failed attempt
  uses up nothing: the pass after it attempts the swap again, and so on for as long
  as the swap fails.
\<close>

theorem retries_without_bound:
  "prefix (steps (fst (snd (loop_iter rt p w)))) chain \<and>
   attempts_in rt p ws \<le> length ws \<and>
   (swap_attempted rt p w \<and> \<not> swap_succeeded rt p w \<longrightarrow>
      swap_attempted rt (fst (loop_iter rt p w)) w')"
  using loop_iter_chain [of rt p w] attempts_in_le [of rt p ws]
    attempted_again [of rt p w w']
  by blast

text \<open>Three passes with the quote service down: three attempts.\<close>

theorem retries_without_bound_witness:
  "swap_attempted example_runtime example_program down_world \<and>
   \<not> swap_succeeded example_runtime example_program down_world \<and>
   swap_attempted example_runtime
     (fst (loop_iter example_runtime example_program down_world)) down_world \<and>
   steps (fst (snd (loop_iter example_runtime example_program down_world))) = [QuoteStep] \<and>
   prefix (steps (fst (snd (loop_iter example_runtime example_program down_world)))) chain \<and>
   attempts_in example_runtime example_program [down_world, down_world, down_world] = 3 \<and>
   attempts_in example_runtime example_program [down_world, down_world, down_world] \<le>
     length [down_world, down_world, down_world]"
proof -
  have a: "swap_attempted example_runtime example_program down_world"
    by (rule down_world_pass)
  have f: "\<not> swap_succeeded example_runtime example_program down_world"
    by (simp add: run_defs example_defs)
  have s: "steps (fst (snd (loop_iter example_runtime example_program down_world))) =
             [QuoteStep]"
    by (simp add: loop_iter_steps a) (simp add: run_defs example_defs)
  have n: "attempts_in example_runtime example_program [down_world, down_world, down_world] = 3"
    using down_world_attempts [of 3] by (simp add: numeral_3_eq_3)
  note th = retries_without_bound [of example_runtime example_program down_world
      "[down_world, down_world, down_world]" down_world]
  from th a f have "swap_attempted example_runtime
     (fst (loop_iter example_runtime example_program down_world)) down_world"
    by blast
  moreover from th
  have "prefix (steps (fst (snd (loop_iter example_runtime example_program down_world)))) chain"
    by blast
  moreover from th
  have "attempts_in example_runtime example_program [down_world, down_world, down_world] \<le>
     length [down_world, down_world, down_world]"
    by blast
  ultimately show ?thesis using a f s n by blast
qed

text \<open>
  No number bounds the attempts: with the quote service down, \<open>n\<close> passes make
  \<open>n\<close> attempts, for every \<open>n\<close>.
\<close>

theorem retries_without_bound_counterexample:
  "\<not> (\<exists>N. \<forall>n. attempts_in example_runtime example_program (replicate n down_world) \<le> N)"
proof
  assume "\<exists>N. \<forall>n. attempts_in example_runtime example_program (replicate n down_world) \<le> N"
  then obtain N
    where "\<forall>n. attempts_in example_runtime example_program (replicate n down_world) \<le> N"
    by blast
  then have "attempts_in example_runtime example_program (replicate (Suc N) down_world) \<le> N"
    by blast
  with down_world_attempts [of "Suc N"] have "Suc N \<le> N" by (simp only:)
  then show False by simp
qed

section \<open>Start-up check and the amount\<close>

lemma swapOnce_bad_amount:
  assumes "bad_amount rt (penv p)"
  shows "swapOnce rt p w =
           ([], Inl (new_Error ''AMOUNT_IN_BASE_UNITS must be a positive integer (base units).''))"
proof -
  from assms
  have "\<not> isFinite (Number_env rt (AMOUNT_IN_BASE_UNITS (penv p))) \<or>
        js_le (Number_env rt (AMOUNT_IN_BASE_UNITS (penv p))) (Finite 0)"
    by (auto simp add: bad_amount_def Number_env_def)
  then show ?thesis by (auto simp add: swapOnce_def Let_def throw_def)
qed

lemma bad_amount_pass:
  assumes "bad_amount rt (penv p)"
  shows "\<not> swap_succeeded rt p w"
    and "steps (fst (snd (loop_iter rt p w))) = []"
    and "fst (loop_iter rt p w) = day_reset p (now w)"
proof -
  have e: "penv (day_reset p (now w)) = penv p" by (simp add: day_reset_def)
  with assms have b: "bad_amount rt (penv (day_reset p (now w)))" by simp
  note sw = swapOnce_bad_amount [OF b, of w]
  show s: "\<not> swap_succeeded rt p w" by (simp add: swap_succeeded_def sw)
  show "steps (fst (snd (loop_iter rt p w))) = []" by (simp add: loop_iter_steps sw)
  from s show "fst (loop_iter rt p w) = day_reset p (now w)"
    by (simp add: fst_loop_iter fst_loop_body)
qed

lemma bad_amount_error_pass:
  assumes "bad_amount rt (penv p)" and "swap_attempted rt p w"
  shows "fst (snd (loop_iter rt p w)) =
     ConsoleError (new_Error ''AMOUNT_IN_BASE_UNITS must be a positive integer (base units).'') #
     fst (discord (penv p) (fetch_webhook w)
            (error_message
               (new_Error ''AMOUNT_IN_BASE_UNITS must be a positive integer (base units).''))) @
     [SleepSeconds (interval rt p)]"
proof -
  have e: "penv (day_reset p (now w)) = penv p" by (simp add: day_reset_def)
  with assms(1) have b: "bad_amount rt (penv (day_reset p (now w)))" by simp
  note sw = swapOnce_bad_amount [OF b, of w]
  from assms(2) show ?thesis
    by (simp add: loop_iter_events loop_body_events loop_body_result swap_attempted_def sw)
qed

lemma bad_amount_run:
  "bad_amount rt (penv p) \<Longrightarrow>
     steps (fst (snd (loop_run rt p ws))) = [] \<and>
     tradesToday (fst (loop_run rt p ws)) \<le> tradesToday p"
proof (induction ws arbitrary: p)
  case Nil
  show ?case by (simp add: ret_def)
next
  case (Cons w ws)
  let ?p' = "fst (loop_iter rt p w)"
  from Cons.prems have "bad_amount rt (penv ?p')" by (simp add: loop_iter_penv)
  then have ih: "steps (fst (snd (loop_run rt ?p' ws))) = [] \<and>
     tradesToday (fst (loop_run rt ?p' ws)) \<le> tradesToday ?p'"
    by (rule Cons.IH)
  from Cons.prems have "tradesToday ?p' \<le> tradesToday p"
    by (simp add: bad_amount_pass day_reset_trades_le)
  with ih Cons.prems show ?case
    by (simp add: loop_run_Cons steps_append bad_amount_pass)
qed

lemma main_missing:
  assumes "RPC_URL e = None \<or> PRIVATE_KEY_B58 e = None \<or> TOKEN_MINT e = None \<or>
           QUOTE_MINT e = None \<or> SIDE e = None"
  shows "main rt e sw ws =
           ([ConsoleErrorText ''Missing required env vars.'', ProcessExit 1], Exited 1)"
  using assms by (auto simp add: main_def unset_or_empty_def)

lemma init_module_amount:
  "init_module rt (e\<lparr>AMOUNT_IN_BASE_UNITS := a\<rparr>) d =
     (case init_module rt e d of
        Inl x \<Rightarrow> Inl x
      | Inr q \<Rightarrow> Inr (q\<lparr>penv := e\<lparr>AMOUNT_IN_BASE_UNITS := a\<rparr>\<rparr>))"
  by (simp add: init_module_def split: option.splits sum.splits)

lemma main_amount:
  "main rt (e\<lparr>AMOUNT_IN_BASE_UNITS := a\<rparr>) sw [] =
     (fst (main rt e sw []),
      case snd (main rt e sw []) of
        Running q \<Rightarrow> Running (q\<lparr>penv := e\<lparr>AMOUNT_IN_BASE_UNITS := a\<rparr>\<rparr>)
      | Exited n \<Rightarrow> Exited n
      | Crashed x \<Rightarrow> Crashed x)"
  by (simp add: main_def init_module_amount Let_def ret_def discord_events
      split: sum.splits)

text \<open>
  C8. When one of \<open>RPC_URL\<close>, \<open>PRIVATE_KEY_B58\<close>, \<open>TOKEN_MINT\<close>,
  \<open>QUOTE_MINT\<close>, \<open>SIDE\<close> is unset, the program prints the error and exits with
  code 1, and does nothing else. \<open>AMOUNT_IN_BASE_UNITS\<close> plays no part in the
  start-up: changing it changes neither what start-up does nor how it ends. When it
  is unset, is not a number or is not above zero, every call of \<open>swapOnce\<close> throws
  before any call to the outside; a pass that attempts the swap logs and reports that
  error and sleeps; and a run never makes a call of the swap chain and never raises
  \<open>tradesToday\<close>, while it goes on through every pass.
\<close>

theorem startup_check_and_amount:
  "(RPC_URL e = None \<or> PRIVATE_KEY_B58 e = None \<or> TOKEN_MINT e = None \<or>
    QUOTE_MINT e = None \<or> SIDE e = None \<longrightarrow>
      main rt e sw ws =
        ([ConsoleErrorText ''Missing required env vars.'', ProcessExit 1], Exited 1)) \<and>
   main rt (e\<lparr>AMOUNT_IN_BASE_UNITS := a\<rparr>) sw [] =
     (fst (main rt e sw []),
      case snd (main rt e sw []) of
        Running q \<Rightarrow> Running (q\<lparr>penv := e\<lparr>AMOUNT_IN_BASE_UNITS := a\<rparr>\<rparr>)
      | Exited n \<Rightarrow> Exited n
      | Crashed x \<Rightarrow> Crashed x) \<and>
   (bad_amount rt (penv p) \<longrightarrow>
      swapOnce rt p w =
        ([], Inl (new_Error ''AMOUNT_IN_BASE_UNITS must be a positive integer (base units).'')) \<and>
      (swap_attempted rt p w \<longrightarrow>
         fst (snd (loop_iter rt p w)) =
           ConsoleError
             (new_Error ''AMOUNT_IN_BASE_UNITS must be a positive integer (base units).'') #
           fst (discord (penv p) (fetch_webhook w)
                  (error_message
                     (new_Error
                        ''AMOUNT_IN_BASE_UNITS must be a positive integer (base units).''))) @
           [SleepSeconds (interval rt p)]) \<and>
      steps (fst (snd (loop_run rt p ws))) = [] \<and>
      tradesToday (fst (loop_run rt p ws)) \<le> tradesToday p \<and>
      snd (snd (loop_run rt p ws)) = Inr () \<and>
      length (filter is_sleep (fst (snd (loop_run rt p ws)))) = length ws)"
  using main_missing [where e = e and rt = rt and sw = sw and ws = ws]
    main_amount [where e = e and rt = rt and sw = sw and a = a]
    swapOnce_bad_amount [where rt = rt and p = p and w = w]
    bad_amount_error_pass [where rt = rt and p = p and w = w]
    bad_amount_run [where rt = rt and p = p and ws = ws]
    loop_run_result [of rt p ws] loop_run_sleeps [of rt p ws]
  by blast


text \<open>\<open>SIDE\<close> unset; and \<open>AMOUNT_IN_BASE_UNITS\<close> unset.\<close>

theorem startup_check_and_amount_witness:
  "SIDE (example_env\<lparr>SIDE := None\<rparr>) = None \<and>
   main example_runtime (example_env\<lparr>SIDE := None\<rparr>) example_startup [good_world] =
     ([ConsoleErrorText ''Missing required env vars.'', ProcessExit 1], Exited 1) \<and>
   snd (main example_runtime (example_env\<lparr>AMOUNT_IN_BASE_UNITS := None\<rparr>)
          example_startup []) = Running no_amount \<and>
   bad_amount example_runtime (penv no_amount) \<and>
   swap_attempted example_runtime no_amount good_world \<and>
   swapOnce example_runtime no_amount good_world =
     ([], Inl (new_Error ''AMOUNT_IN_BASE_UNITS must be a positive integer (base units).'')) \<and>
   fst (snd (loop_iter example_runtime no_amount good_world)) =
     [ConsoleError
        (new_Error ''AMOUNT_IN_BASE_UNITS must be a positive integer (base units).''),
      WebhookPost ''https://hook.example''
        (error_message
           (new_Error ''AMOUNT_IN_BASE_UNITS must be a positive integer (base units).'')),
      SleepSeconds (Finite 1200)] \<and>
   steps (fst (snd (loop_run example_runtime no_amount [good_world, good_world]))) = [] \<and>
   tradesToday (fst (loop_run example_runtime no_amount [good_world, good_world])) \<le>
     tradesToday no_amount \<and>
   snd (snd (loop_run example_runtime no_amount [good_world, good_world])) = Inr () \<and>
   length (filter is_sleep
     (fst (snd (loop_run example_runtime no_amount [good_world, good_world])))) =
     length [good_world, good_world]"
proof -
  have u: "SIDE (example_env\<lparr>SIDE := None\<rparr>) = None" by simp
  have m: "snd (main example_runtime example_env example_startup []) = Running example_program"
    by (simp add: main_def init_module_def ret_def Let_def run_defs example_defs)
  have b: "bad_amount example_runtime (penv no_amount)"
    by (simp add: bad_amount_def no_amount_def)
  have a: "swap_attempted example_runtime no_amount good_world"
    by (simp add: run_defs example_defs no_amount_def)
  have d: "fst (discord (penv no_amount) (fetch_webhook good_world)
             (error_message
                (new_Error ''AMOUNT_IN_BASE_UNITS must be a positive integer (base units).''))) =
           [WebhookPost ''https://hook.example''
              (error_message
                 (new_Error ''AMOUNT_IN_BASE_UNITS must be a positive integer (base units).''))]"
    by (simp add: discord_events example_defs no_amount_def)
  have i: "interval example_runtime no_amount = Finite 1200"
    by (simp add: run_defs example_defs no_amount_def)
  note missing = startup_check_and_amount [of "example_env\<lparr>SIDE := None\<rparr>" example_runtime
      example_startup "[good_world]" None no_amount good_world]
  note rest = startup_check_and_amount [of example_env example_runtime
      example_startup "[good_world, good_world]" None no_amount good_world]
  from missing u
  have c1: "main example_runtime (example_env\<lparr>SIDE := None\<rparr>) example_startup [good_world] =
     ([ConsoleErrorText ''Missing required env vars.'', ProcessExit 1], Exited 1)"
    by blast
  from rest
  have "main example_runtime (example_env\<lparr>AMOUNT_IN_BASE_UNITS := None\<rparr>) example_startup [] =
     (fst (main example_runtime example_env example_startup []),
      case snd (main example_runtime example_env example_startup []) of
        Running q \<Rightarrow> Running (q\<lparr>penv := example_env\<lparr>AMOUNT_IN_BASE_UNITS := None\<rparr>\<rparr>)
      | Exited n \<Rightarrow> Exited n
      | Crashed x \<Rightarrow> Crashed x)"
    by blast
  with m have c2: "snd (main example_runtime (example_env\<lparr>AMOUNT_IN_BASE_UNITS := None\<rparr>)
          example_startup []) = Running no_amount"
    by (simp add: no_amount_def)
  from rest b
  have c3: "swapOnce example_runtime no_amount good_world =
     ([], Inl (new_Error ''AMOUNT_IN_BASE_UNITS must be a positive integer (base units).''))"
    by blast
  from rest b a
  have "fst (snd (loop_iter example_runtime no_amount good_world)) =
           ConsoleError
             (new_Error ''AMOUNT_IN_BASE_UNITS must be a positive integer (base units).'') #
           fst (discord (penv no_amount) (fetch_webhook good_world)
                  (error_message
                     (new_Error
                        ''AMOUNT_IN_BASE_UNITS must be a positive integer (base units).''))) @
           [SleepSeconds (interval example_runtime no_amount)]"
    by blast
  with d i have c4: "fst (snd (loop_iter example_runtime no_amount good_world)) =
     [ConsoleError
        (new_Error ''AMOUNT_IN_BASE_UNITS must be a positive integer (base units).''),
      WebhookPost ''https://hook.example''
        (error_message
           (new_Error ''AMOUNT_IN_BASE_UNITS must be a positive integer (base units).'')),
      SleepSeconds (Finite 1200)]"
    by simp
  from rest b
  have c5: "steps (fst (snd (loop_run example_runtime no_amount [good_world, good_world]))) = [] \<and>
   tradesToday (fst (loop_run example_runtime no_amount [good_world, good_world])) \<le>
     tradesToday no_amount \<and>
   snd (snd (loop_run example_runtime no_amount [good_world, good_world])) = Inr () \<and>
   length (filter is_sleep
     (fst (snd (loop_run example_runtime no_amount [good_world, good_world])))) =
     length [good_world, good_world]"
    by blast
  from u c1 c2 b a c3 c4 c5 show ?thesis by blast
qed


section \<open>The direction of the swap\<close>

lemma quotes_append: "quotes (xs @ ys) = quotes xs @ quotes ys"
  by (induction xs rule: quotes.induct) simp_all

lemma discord_quotes: "quotes (fst (discord e post msg)) = []"
  by (simp add: discord_events split: option.splits)

lemma swapOnce_quotes:
  "q \<in> set (quotes (fst (swapOnce rt p w))) \<Longrightarrow>
     inputMint q = toBase58 (INPUT p) \<and> outputMint q = toBase58 (OUTPUT p)"
  by (auto simp add: swapOnce_def Let_def and_then_call and_then_pure throw_def ret_def
      split: sum.splits option.splits if_splits)

lemma loop_iter_quotes:
  "quotes (fst (snd (loop_iter rt p w))) =
     (if swap_attempted rt p w then quotes (fst (swapOnce rt (day_reset p (now w)) w)) else [])"
  by (simp add: loop_iter_events loop_body_events loop_body_result swap_attempted_def
      quotes_append discord_quotes split: sum.splits option.splits)


lemma loop_iter_quote_mints:
  assumes "q \<in> set (quotes (fst (snd (loop_iter rt p w))))"
  shows "inputMint q = toBase58 (INPUT p) \<and> outputMint q = toBase58 (OUTPUT p)"
proof -
  have io: "INPUT (day_reset p (now w)) = INPUT p" "OUTPUT (day_reset p (now w)) = OUTPUT p"
    by (simp_all add: day_reset_def)
  from assms have "q \<in> set (quotes (fst (swapOnce rt (day_reset p (now w)) w)))"
    by (simp add: loop_iter_quotes split: if_splits)
  then have "inputMint q = toBase58 (INPUT (day_reset p (now w))) \<and>
             outputMint q = toBase58 (OUTPUT (day_reset p (now w)))"
    by (rule swapOnce_quotes)
  with io show ?thesis by simp
qed

lemma loop_run_quote_mints:
  "q \<in> set (quotes (fst (snd (loop_run rt p ws)))) \<Longrightarrow>
     inputMint q = toBase58 (INPUT p) \<and> outputMint q = toBase58 (OUTPUT p)"
proof (induction ws arbitrary: p)
  case Nil
  then show ?case by (simp add: ret_def)
next
  case (Cons w ws)
  let ?p' = "fst (loop_iter rt p w)"
  have io: "INPUT ?p' = INPUT p" "OUTPUT ?p' = OUTPUT p"
    by (simp_all add: fst_loop_iter fst_loop_body day_reset_def)
  from Cons.prems
  have "q \<in> set (quotes (fst (snd (loop_iter rt p w)))) \<or>
        q \<in> set (quotes (fst (snd (loop_run rt ?p' ws))))"
    by (simp add: loop_run_Cons quotes_append)
  then show ?case
  proof
    assume "q \<in> set (quotes (fst (snd (loop_iter rt p w))))"
    then show ?thesis by (rule loop_iter_quote_mints)
  next
    assume "q \<in> set (quotes (fst (snd (loop_run rt ?p' ws))))"
    then have "inputMint q = toBase58 (INPUT ?p') \<and> outputMint q = toBase58 (OUTPUT ?p')"
      by (rule Cons.IH)
    with io show ?thesis by simp
  qed
qed

lemma init_module_direction:
  assumes "init_module rt e d = Inr p"
  shows "\<exists>t u. TOKEN_MINT e = Some t \<and> QUOTE_MINT e = Some u \<and>
           newPublicKey rt t = Inr (TOKEN p) \<and> newPublicKey rt u = Inr (QUOTE p)"
    and "INPUT p = (if SIDE e = Some ''sell'' then TOKEN p else QUOTE p)"
    and "OUTPUT p = (if SIDE e = Some ''sell'' then QUOTE p else TOKEN p)"
  using assms
  by (auto simp add: init_module_def split: option.splits sum.splits)


lemma main_quotes:
  "quotes (fst (main rt e sw ws)) =
     (if unset_or_empty (RPC_URL e) \<or> unset_or_empty (PRIVATE_KEY_B58 e) \<or>
         unset_or_empty (TOKEN_MINT e) \<or> unset_or_empty (QUOTE_MINT e) \<or>
         unset_or_empty (SIDE e)
      then []
      else
        case init_module rt e (start_now sw) of
          Inl x \<Rightarrow> []
        | Inr p \<Rightarrow>
            (case getBalance sw (publicKey (wallet p)) of
               Inl x \<Rightarrow> []
             | Inr bal \<Rightarrow> quotes (fst (snd (loop_run rt p ws)))))"
  by (simp add: main_def Let_def quotes_append discord_quotes
      split: sum.splits prod.splits)

lemma main_quote_mints:
  assumes "q \<in> set (quotes (fst (main rt e sw ws)))"
  shows "\<exists>t u tk qk. TOKEN_MINT e = Some t \<and> QUOTE_MINT e = Some u \<and>
           newPublicKey rt t = Inr tk \<and> newPublicKey rt u = Inr qk \<and>
           inputMint q = toBase58 (if SIDE e = Some ''sell'' then tk else qk) \<and>
           outputMint q = toBase58 (if SIDE e = Some ''sell'' then qk else tk)"
proof (cases "init_module rt e (start_now sw)")
  case (Inl x)
  with assms show ?thesis by (simp add: main_quotes split: if_splits)
next
  case (Inr p)
  with assms have q: "q \<in> set (quotes (fst (snd (loop_run rt p ws))))"
    by (simp add: main_quotes split: if_splits sum.splits)
  from q have m: "inputMint q = toBase58 (INPUT p)" "outputMint q = toBase58 (OUTPUT p)"
    by (simp_all add: loop_run_quote_mints)
  from init_module_direction(1) [OF Inr] obtain t u
    where k: "TOKEN_MINT e = Some t" "QUOTE_MINT e = Some u"
      "newPublicKey rt t = Inr (TOKEN p)" "newPublicKey rt u = Inr (QUOTE p)"
    by blast
  from m init_module_direction(2,3) [OF Inr]
  have "inputMint q = toBase58 (if SIDE e = Some ''sell'' then TOKEN p else QUOTE p)"
    and "outputMint q = toBase58 (if SIDE e = Some ''sell'' then QUOTE p else TOKEN p)"
    by simp_all
  with k show ?thesis by blast
qed

text \<open>
  C9. Every quote request the program ever sends has the mints in the order that
  \<open>SIDE === 'sell'\<close> alone decides: from \<open>TOKEN_MINT\<close> to \<open>QUOTE_MINT\<close>
  when \<open>SIDE\<close> is exactly \<open>sell\<close>, and from \<open>QUOTE_MINT\<close> to
  \<open>TOKEN_MINT\<close> for every other value. \<open>INPUT\<close> and \<open>OUTPUT\<close> are bound
  that way at start-up, and the result of \<open>swapOnce\<close> names the same two mints.
\<close>

theorem swap_direction:
  "(q \<in> set (quotes (fst (main rt e sw ws))) \<longrightarrow>
      (\<exists>t u tk qk. TOKEN_MINT e = Some t \<and> QUOTE_MINT e = Some u \<and>
           newPublicKey rt t = Inr tk \<and> newPublicKey rt u = Inr qk \<and>
           inputMint q = toBase58 (if SIDE e = Some ''sell'' then tk else qk) \<and>
           outputMint q = toBase58 (if SIDE e = Some ''sell'' then qk else tk))) \<and>
   (init_module rt e d = Inr p \<longrightarrow>
      INPUT p = (if SIDE e = Some ''sell'' then TOKEN p else QUOTE p) \<and>
      OUTPUT p = (if SIDE e = Some ''sell'' then QUOTE p else TOKEN p)) \<and>
   (\<forall>r. snd (swapOnce rt p' w) = Inr r \<longrightarrow>
      inMint r = toBase58 (INPUT p') \<and> outMint r = toBase58 (OUTPUT p'))"
proof (intro conjI allI impI)
  assume "q \<in> set (quotes (fst (main rt e sw ws)))"
  then show "\<exists>t u tk qk. TOKEN_MINT e = Some t \<and> QUOTE_MINT e = Some u \<and>
           newPublicKey rt t = Inr tk \<and> newPublicKey rt u = Inr qk \<and>
           inputMint q = toBase58 (if SIDE e = Some ''sell'' then tk else qk) \<and>
           outputMint q = toBase58 (if SIDE e = Some ''sell'' then qk else tk)"
    by (rule main_quote_mints)
next
  assume p: "init_module rt e d = Inr p"
  show "INPUT p = (if SIDE e = Some ''sell'' then TOKEN p else QUOTE p)"
    by (rule init_module_direction(2) [OF p])
  show "OUTPUT p = (if SIDE e = Some ''sell'' then QUOTE p else TOKEN p)"
    by (rule init_module_direction(3) [OF p])
next
  fix r
  assume "snd (swapOnce rt p' w) = Inr r"
  from swapOnce_returns [OF this]
  show "inMint r = toBase58 (INPUT p')" and "outMint r = toBase58 (OUTPUT p')"
    by simp_all
qed


text \<open>\<open>SIDE=sell\<close> sells the token; \<open>SIDE=Sell\<close> buys it.\<close>

theorem swap_direction_witness:
  "\<lparr>inputMint = ''TokenMint'', outputMint = ''QuoteMint'', amount_param = Finite 1000000,
     slippageBps = ''50'', onlyDirectRoutes = ''false''\<rparr>
     \<in> set (quotes (fst (main example_runtime example_env example_startup [good_world]))) \<and>
   SIDE example_env = Some ''sell'' \<and>
   \<lparr>inputMint = ''QuoteMint'', outputMint = ''TokenMint'', amount_param = Finite 1000000,
     slippageBps = ''50'', onlyDirectRoutes = ''false''\<rparr>
     \<in> set (quotes (fst (main example_runtime (example_env\<lparr>SIDE := Some ''Sell''\<rparr>)
                            example_startup [good_world]))) \<and>
   (\<exists>t u tk qk.
      TOKEN_MINT (example_env\<lparr>SIDE := Some ''Sell''\<rparr>) = Some t \<and>
      QUOTE_MINT (example_env\<lparr>SIDE := Some ''Sell''\<rparr>) = Some u \<and>
      newPublicKey example_runtime t = Inr tk \<and>
      newPublicKey example_runtime u = Inr qk \<and>
      ''QuoteMint'' = toBase58 qk \<and> ''TokenMint'' = toBase58 tk) \<and>
   init_module example_runtime example_env jan15 = Inr example_program \<and>
   INPUT example_program = TOKEN example_program \<and>
   OUTPUT example_program = QUOTE example_program"
proof -
  let ?sell = "\<lparr>inputMint = ''TokenMint'', outputMint = ''QuoteMint'',
     amount_param = Finite 1000000, slippageBps = ''50'', onlyDirectRoutes = ''false''\<rparr>"
  let ?buy = "\<lparr>inputMint = ''QuoteMint'', outputMint = ''TokenMint'',
     amount_param = Finite 1000000, slippageBps = ''50'', onlyDirectRoutes = ''false''\<rparr>"
  let ?e = "example_env\<lparr>SIDE := Some ''Sell''\<rparr>"
  have i: "init_module example_runtime example_env jan15 = Inr example_program"
    by (simp add: init_module_def run_defs example_defs)
  have i': "init_module example_runtime ?e jan15 =
              Inr (example_program\<lparr>penv := ?e, INPUT := PublicKey ''QuoteMint'',
                                   OUTPUT := PublicKey ''TokenMint''\<rparr>)"
    by (simp add: init_module_def run_defs example_defs)
  have s: "?sell \<in> set (quotes (fst (main example_runtime example_env example_startup
                                        [good_world])))"
    by (simp add: main_quotes i loop_run_Cons loop_iter_quotes quotes_append ret_def
        example_startup_def)
       (simp add: run_defs example_defs)
  have b: "?buy \<in> set (quotes (fst (main example_runtime ?e example_startup [good_world])))"
    by (simp add: main_quotes i' loop_run_Cons loop_iter_quotes quotes_append ret_def
        example_startup_def)
       (simp add: run_defs example_defs)
  have sd: "SIDE example_env = Some ''sell''" by (simp add: example_defs)
  have sd': "SIDE ?e \<noteq> Some ''sell''" by simp
  from swap_direction [of ?buy example_runtime ?e example_startup "[good_world]"] b
  have "\<exists>t u tk qk. TOKEN_MINT ?e = Some t \<and> QUOTE_MINT ?e = Some u \<and>
           newPublicKey example_runtime t = Inr tk \<and> newPublicKey example_runtime u = Inr qk \<and>
           inputMint ?buy = toBase58 (if SIDE ?e = Some ''sell'' then tk else qk) \<and>
           outputMint ?buy = toBase58 (if SIDE ?e = Some ''sell'' then qk else tk)"
    by blast
  then have x: "\<exists>t u tk qk.
      TOKEN_MINT ?e = Some t \<and> QUOTE_MINT ?e = Some u \<and>
      newPublicKey example_runtime t = Inr tk \<and>
      newPublicKey example_runtime u = Inr qk \<and>
      ''QuoteMint'' = toBase58 qk \<and> ''TokenMint'' = toBase58 tk"
    by simp
  from swap_direction [of ?sell example_runtime example_env example_startup "[good_world]"
      jan15 example_program] i sd
  have y: "INPUT example_program = TOKEN example_program \<and>
           OUTPUT example_program = QUOTE example_program"
    by simp
  from s sd b x i y show ?thesis by blast
qed

end
